theory Spec2Isabelle
  imports Complex_Main "HOL-Library.AList"
begin

section \<open>Rebound: a retry orchestration engine\<close>

text \<open>
  A shallow embedding of the retry engine: the circuit breaker
  (\<^verbatim>\<open>src/circuit-breaker.ts\<close>), the rate-limit tracker, the Retry-After parser, the
  metrics reduction, option validation, the pre-attempt checks, the execution of one
  attempt and the orchestration loop of \<^verbatim>\<open>src/retry.ts\<close>.

  Conventions. Times are integer milliseconds. \<^verbatim>\<open>Date.now()\<close> is a component of the
  state; it advances only where the source awaits (the operation, a sleep).
  A JavaScript \<^verbatim>\<open>number\<close> that the code tests for finiteness is a \<open>jsnum\<close>; finite
  values are exact rationals, so floating-point rounding is not modelled.
\<close>

subsection \<open>Circuit breaker (\<^verbatim>\<open>src/circuit-breaker.ts\<close>)\<close>

datatype CircuitState = Closed | Open | HalfOpen

record CircuitBreakerParams =
  failureThreshold :: int
  successThreshold :: int
  timeout :: int

text \<open>
  The private fields of the class. \<open>stateChanges\<close> logs the calls of the optional
  \<^verbatim>\<open>onStateChange\<close> callback, in order.
\<close>

record CircuitBreaker =
  params :: CircuitBreakerParams
  state :: CircuitState
  failureCount :: int
  successCount :: int
  lastFailureTime :: "int option"
  stateChanges :: "CircuitState list"

definition newCircuitBreaker :: "CircuitBreakerParams \<Rightarrow> CircuitBreaker" where
  "newCircuitBreaker p =
     \<lparr>params = p, state = Closed, failureCount = 0, successCount = 0,
      lastFailureTime = None, stateChanges = []\<rparr>"

definition transitionTo :: "CircuitState \<Rightarrow> CircuitBreaker \<Rightarrow> CircuitBreaker" where
  "transitionTo newState cb =
     (if state cb \<noteq> newState
      then cb\<lparr>state := newState, stateChanges := stateChanges cb @ [newState]\<rparr>
      else cb)"

text \<open>
  \<^verbatim>\<open>this.lastFailureTime && now - this.lastFailureTime >= this.params.timeout\<close>:
  the first conjunct is JavaScript truthiness, false for \<^verbatim>\<open>null\<close> and for \<open>0\<close>.
\<close>

definition timeoutPassed :: "int \<Rightarrow> CircuitBreaker \<Rightarrow> bool" where
  "timeoutPassed now cb =
     (case lastFailureTime cb of
        None \<Rightarrow> False
      | Some t \<Rightarrow> t \<noteq> 0 \<and> now - t \<ge> timeout (params cb))"

definition canExecute :: "int \<Rightarrow> CircuitBreaker \<Rightarrow> bool \<times> CircuitBreaker" where
  "canExecute now cb =
     (if state cb = Closed then (True, cb)
      else if state cb = Open then
        (if timeoutPassed now cb then (True, transitionTo HalfOpen cb) else (False, cb))
      else (True, cb))"

definition recordSuccess :: "CircuitBreaker \<Rightarrow> CircuitBreaker" where
  "recordSuccess cb =
     (if state cb = HalfOpen then
        (let cb1 = cb\<lparr>successCount := successCount cb + 1\<rparr>
         in if successCount cb1 \<ge> successThreshold (params cb1)
            then (transitionTo Closed cb1)\<lparr>successCount := 0\<rparr>
            else cb1)
      else if state cb = Closed then cb\<lparr>failureCount := 0\<rparr>
      else cb)"

definition recordFailure :: "int \<Rightarrow> CircuitBreaker \<Rightarrow> CircuitBreaker" where
  "recordFailure now cb =
     (let cb1 = cb\<lparr>lastFailureTime := Some now, failureCount := failureCount cb + 1\<rparr>
      in if state cb1 = HalfOpen then (transitionTo Open cb1)\<lparr>successCount := 0\<rparr>
         else if state cb1 = Closed \<and> failureCount cb1 \<ge> failureThreshold (params cb1)
         then transitionTo Open cb1
         else cb1)"

definition reset :: "CircuitBreaker \<Rightarrow> CircuitBreaker" where
  "reset cb =
     cb\<lparr>state := Closed, failureCount := 0, successCount := 0, lastFailureTime := None,
        stateChanges := stateChanges cb @ [Closed]\<rparr>"

subsection \<open>Numbers, failure domains and errors (\<^verbatim>\<open>src/types.ts\<close>, \<^verbatim>\<open>src/errors.ts\<close>)\<close>

datatype jsnum = Fin rat | NaN | PosInf | NegInf

definition isFinite :: "jsnum \<Rightarrow> bool" where
  "isFinite x = (case x of Fin r \<Rightarrow> True | _ \<Rightarrow> False)"

definition isInteger :: "jsnum \<Rightarrow> bool" where
  "isInteger x = (case x of Fin r \<Rightarrow> r = of_int \<lfloor>r\<rfloor> | _ \<Rightarrow> False)"

text \<open>\<^verbatim>\<open>x < c\<close> and \<^verbatim>\<open>x <= c\<close> against a finite constant; a comparison with NaN is false.\<close>

definition jsLess :: "jsnum \<Rightarrow> rat \<Rightarrow> bool" where
  "jsLess x c = (case x of Fin r \<Rightarrow> r < c | NegInf \<Rightarrow> True | _ \<Rightarrow> False)"

definition jsLessEq :: "jsnum \<Rightarrow> rat \<Rightarrow> bool" where
  "jsLessEq x c = (case x of Fin r \<Rightarrow> r \<le> c | NegInf \<Rightarrow> True | _ \<Rightarrow> False)"

datatype FailureDomain = RateLimit | Transient | Permanent | Unknown

text \<open>
  \<open>ResponseMetadata\<close>: a header object is an association list, a later entry for a key
  replacing an earlier one.
\<close>

record ResponseMetadata =
  status :: "int option"
  headers :: "(string \<times> string) list option"
  retryAfter :: "rat option"

text \<open>
  \<open>ErrorWithResponse\<close>: an \<^verbatim>\<open>Error\<close> object as the operation throws it, with the
  optional fields the engine reads. \<open>originalValue\<close> is set by the engine when it wraps a
  thrown value that is not an \<^verbatim>\<open>Error\<close>.
\<close>

record ErrorWithResponse =
  message :: string
  response :: "ResponseMetadata option"
  err_status :: "int option"
  err_headers :: "(string \<times> string) list option"
  err_retryAfter :: "rat option"
  originalValue :: "string option"

text \<open>
  The errors the engine handles: an error that came out of the operation, a plain
  \<^verbatim>\<open>new Error(msg)\<close> of the engine, and the classes of \<^verbatim>\<open>src/errors.ts\<close>. A
  configuration error keeps the text of its message and the offending number apart
  (the message is the text followed by the number).
\<close>

datatype jsError =
    OperationError ErrorWithResponse
  | Error string
  | RetryCancelledError
  | RetryExhaustedError int "jsError option" "FailureDomain option"
  | RetryConfigurationError string jsnum

subsection \<open>Constants (\<^verbatim>\<open>src/constants.ts\<close>)\<close>

definition DEFAULT_MAX_ATTEMPTS :: jsnum where "DEFAULT_MAX_ATTEMPTS = Fin 3"
definition RATE_LIMIT_JITTER_FACTOR :: rat where "RATE_LIMIT_JITTER_FACTOR = 1 / 10"
definition MIN_DELAY_MS :: int where "MIN_DELAY_MS = 0"
definition MAX_REASONABLE_DELAY_MS :: int where "MAX_REASONABLE_DELAY_MS = 300000"

subsection \<open>Retry-After parsing (\<^verbatim>\<open>src/parse-retry-after.ts\<close>)\<close>

text \<open>
  \<^verbatim>\<open>parseInt(s, 10)\<close>: leading white space is skipped, one sign is read, then the
  longest run of decimal digits; no digit gives NaN, here \<open>None\<close>. Characters are
  bytes, so the white space is the ASCII white space.
\<close>

definition isStrWhiteSpaceChar :: "char \<Rightarrow> bool" where
  "isStrWhiteSpaceChar c = (of_char c \<in> {9, 10, 11, 12, 13, 32 :: nat})"

definition isDigit :: "char \<Rightarrow> bool" where
  "isDigit c = (48 \<le> (of_char c :: nat) \<and> (of_char c :: nat) \<le> 57)"

definition digitsValue :: "string \<Rightarrow> int" where
  "digitsValue ds = foldl (\<lambda>acc c. 10 * acc + (int (of_char c) - 48)) 0 ds"

definition parseInt :: "string \<Rightarrow> int option" where
  "parseInt str =
     (let s = dropWhile isStrWhiteSpaceChar str;
          sign = (case s of c # _ \<Rightarrow> if c = CHR ''-'' then - 1 else 1 | [] \<Rightarrow> 1);
          s1 = (case s of c # cs \<Rightarrow> if c = CHR ''+'' \<or> c = CHR ''-'' then cs else s | [] \<Rightarrow> s);
          z = takeWhile isDigit s1
      in if z = [] then None else Some (sign * digitsValue z))"

text \<open>
  \<^verbatim>\<open>new Date(s).getTime()\<close> belongs to the runtime: \<open>dateParse\<close> is a parameter, with
  \<open>None\<close> for an invalid date. The header is \<^verbatim>\<open>string | null | undefined\<close>.
\<close>

definition parseRetryAfter :: "(string \<Rightarrow> int option) \<Rightarrow> int \<Rightarrow> string option \<Rightarrow> int option" where
  "parseRetryAfter dateParse now retryAfterHeader =
     (case retryAfterHeader of
        None \<Rightarrow> None
      | Some h \<Rightarrow>
          if h = [] then None
          else (case parseInt h of
                  Some seconds \<Rightarrow> Some seconds
                | None \<Rightarrow>
                    (case dateParse h of
                       Some t \<Rightarrow> (let retryAfterMs = t - now in Some (max 0 (retryAfterMs div 1000)))
                     | None \<Rightarrow> None)))"

text \<open>The decimal numeral of a natural number, to state what an integer-seconds string is.\<close>

fun decimal :: "nat \<Rightarrow> string" where
  "decimal n =
     (if n < 10 then [char_of (48 + n)]
      else decimal (n div 10) @ [char_of (48 + n mod 10)])"


subsection \<open>Validation (\<^verbatim>\<open>src/validation.ts\<close>)\<close>

definition validateRetryOptions :: "jsnum option \<Rightarrow> jsnum option \<Rightarrow> jsError + unit" where
  "validateRetryOptions maxAttempts timeout' =
     (case (case maxAttempts of
              None \<Rightarrow> Inr ()
            | Some m \<Rightarrow>
                if \<not> isInteger m \<or> jsLess m 1
                then Inl (RetryConfigurationError ''maxAttempts must be a positive integer, got: '' m)
                else Inr ()) of
        Inl e \<Rightarrow> Inl e
      | Inr _ \<Rightarrow>
          (case timeout' of
             None \<Rightarrow> Inr ()
           | Some t \<Rightarrow>
               if \<not> isFinite t \<or> jsLessEq t 0
               then Inl (RetryConfigurationError ''timeout must be a positive number, got: '' t)
               else Inr ()))"

text \<open>The result is \<^verbatim>\<open>null\<close> or an integer between 0 and the cap, so it is an \<open>int option\<close>.\<close>

definition validateAndClampDelay :: "jsnum option \<Rightarrow> int option" where
  "validateAndClampDelay delay' =
     (case delay' of
        None \<Rightarrow> None
      | Some d \<Rightarrow>
          if \<not> isFinite d \<or> jsLess d (of_int MIN_DELAY_MS) then Some MIN_DELAY_MS
          else (case d of
                  Fin r \<Rightarrow> Some (min \<lfloor>r\<rfloor> MAX_REASONABLE_DELAY_MS)
                | _ \<Rightarrow> Some MIN_DELAY_MS))"

definition validateAttemptNumber :: "int \<Rightarrow> jsError + unit" where
  "validateAttemptNumber attempt' =
     (if attempt' < 1
      then Inl (RetryConfigurationError ''Attempt number must be a positive integer, got: ''
                  (Fin (of_int attempt')))
      else Inr ())"

subsection \<open>Attempt records (\<^verbatim>\<open>src/types.ts\<close>, \<^verbatim>\<open>src/utils.ts\<close>)\<close>

text \<open>The value a promise resolves with: \<^verbatim>\<open>undefined\<close> or anything else.\<close>

datatype 'v jsval = Undefined | Value 'v

text \<open>\<open>result\<close> and \<open>error\<close> are \<open>None\<close> where the source stores \<^verbatim>\<open>null\<close>.\<close>

record 'v RetryAttempt =
  attempt :: int
  result :: "'v jsval option"
  error :: "jsError option"
  failureDomain :: FailureDomain
  delay :: rat
  timestamp :: int

definition createRetryAttemptSuccess ::
  "int \<Rightarrow> 'v jsval \<Rightarrow> FailureDomain \<Rightarrow> rat \<Rightarrow> int \<Rightarrow> jsError + 'v RetryAttempt" where
  "createRetryAttemptSuccess attempt' result' failureDomain' delay' now =
     (case validateAttemptNumber attempt' of
        Inl e \<Rightarrow> Inl e
      | Inr _ \<Rightarrow>
          Inr \<lparr>attempt = attempt', result = Some result', error = None,
               failureDomain = failureDomain', delay = delay', timestamp = now\<rparr>)"

definition createRetryAttemptFailure ::
  "int \<Rightarrow> jsError \<Rightarrow> FailureDomain \<Rightarrow> rat \<Rightarrow> int \<Rightarrow> jsError + 'v RetryAttempt" where
  "createRetryAttemptFailure attempt' error' failureDomain' delay' now =
     (case validateAttemptNumber attempt' of
        Inl e \<Rightarrow> Inl e
      | Inr _ \<Rightarrow>
          Inr \<lparr>attempt = attempt', result = None, error = Some error',
               failureDomain = failureDomain', delay = delay', timestamp = now\<rparr>)"

subsection \<open>Metrics (\<^verbatim>\<open>src/utils/metrics.ts\<close>)\<close>

record RetryMetrics =
  retryRate :: rat
  successRate :: rat
  averageDelay :: rat
  failureDomainDistribution :: "FailureDomain \<Rightarrow> nat"
  totalRetries :: int

text \<open>
  \<^verbatim>\<open>slice(0, -1)\<close> is \<open>butlast\<close>, \<^verbatim>\<open>reduce\<close> a left fold, and the loop over the
  attempts a left fold over the distribution, which starts at 0 for every domain.
\<close>

definition computeMetrics :: "'v RetryAttempt list \<Rightarrow> bool \<Rightarrow> RetryMetrics" where
  "computeMetrics attempts wasSuccessful =
     (let totalAttempts = int (length attempts);
          totalRetries' = max 0 (totalAttempts - 1);
          retryRate' = (if totalAttempts > 1 then of_int totalRetries' / of_int totalAttempts else 0);
          successRate' = (if wasSuccessful then 1 else 0);
          delays = filter (\<lambda>d. d > 0) (map delay (butlast attempts));
          averageDelay' =
            (if length delays > 0
             then foldl (\<lambda>sum d. sum + d) 0 delays / of_nat (length delays)
             else 0);
          distribution =
            foldl (\<lambda>dist a.
                     if error a \<noteq> None
                     then dist(failureDomain a := dist (failureDomain a) + 1)
                     else dist)
                  (\<lambda>_. 0) attempts
      in \<lparr>retryRate = retryRate', successRate = successRate', averageDelay = averageDelay',
          failureDomainDistribution = distribution, totalRetries = totalRetries'\<rparr>)"

text \<open>
  The reference definition, following the words of the specification for a history of
  length \<open>n\<close>.
\<close>

definition positiveDelaysBeforeLast :: "'v RetryAttempt list \<Rightarrow> rat list" where
  "positiveDelaysBeforeLast attempts =
     [delay a. a \<leftarrow> take (length attempts - 1) attempts, 0 < delay a]"

definition spec_retryRate :: "nat \<Rightarrow> rat" where
  "spec_retryRate n = (if n > 1 then (of_nat n - 1) / of_nat n else 0)"

definition spec_averageDelay :: "'v RetryAttempt list \<Rightarrow> rat" where
  "spec_averageDelay attempts =
     (let ds = positiveDelaysBeforeLast attempts
      in if ds = [] then 0 else sum_list ds / of_nat (length ds))"

definition spec_distribution :: "'v RetryAttempt list \<Rightarrow> FailureDomain \<Rightarrow> nat" where
  "spec_distribution attempts d =
     length (filter (\<lambda>a. error a \<noteq> None \<and> failureDomain a = d) attempts)"

subsection \<open>Headers and response metadata (\<^verbatim>\<open>src/utils/headers.ts\<close>, \<^verbatim>\<open>src/utils.ts\<close>)\<close>

definition toLowerCase :: "string \<Rightarrow> string" where
  "toLowerCase s =
     map (\<lambda>c. if 65 \<le> (of_char c :: nat) \<and> (of_char c :: nat) \<le> 90
               then char_of ((of_char c :: nat) + 32) else c) s"

text \<open>A header object of any of the three accepted kinds is the list of its entries.\<close>

definition parseHeaders :: "(string \<times> string) list \<Rightarrow> (string \<times> string) list" where
  "parseHeaders hs = foldl (\<lambda>res (key, v). AList.update (toLowerCase key) v res) [] hs"

definition isErrorWithResponse :: "ErrorWithResponse \<Rightarrow> bool" where
  "isErrorWithResponse err =
     (response err \<noteq> None \<or> err_status err \<noteq> None \<or> err_headers err \<noteq> None)"

text \<open>\<^verbatim>\<open>retryAfterHeader ? parseRetryAfter(...) : other\<close>: an empty string is falsy.\<close>

definition retryAfterOf ::
  "(string \<Rightarrow> int option) \<Rightarrow> int \<Rightarrow> (string \<times> string) list \<Rightarrow> rat option \<Rightarrow> rat option" where
  "retryAfterOf dateParse now hs other =
     (case map_of hs ''retry-after'' of
        None \<Rightarrow> other
      | Some retryAfterHeader \<Rightarrow>
          if retryAfterHeader = [] then other
          else map_option of_int (parseRetryAfter dateParse now (Some retryAfterHeader)))"

definition extractResponseMetadata ::
  "(string \<Rightarrow> int option) \<Rightarrow> int \<Rightarrow> ErrorWithResponse \<Rightarrow> ResponseMetadata option" where
  "extractResponseMetadata dateParse now err =
     (if \<not> isErrorWithResponse err then None
      else (case response err of
              Some response' \<Rightarrow>
                (let hs = (case headers response' of Some h \<Rightarrow> parseHeaders h | None \<Rightarrow> [])
                 in Some \<lparr>status = status response',
                          headers = (if length hs > 0 then Some hs else None),
                          retryAfter = retryAfterOf dateParse now hs None\<rparr>)
            | None \<Rightarrow>
                if err_status err \<noteq> None \<or> err_headers err \<noteq> None then
                  (let hs = (case err_headers err of Some h \<Rightarrow> parseHeaders h | None \<Rightarrow> [])
                   in Some \<lparr>status = err_status err,
                            headers = (if length hs > 0 then Some hs else None),
                            retryAfter = retryAfterOf dateParse now hs (err_retryAfter err)\<rparr>)
                else None))"

subsection \<open>The HTTP failure classifier (\<^verbatim>\<open>src/classifiers/http.ts\<close>)\<close>

fun startsWith :: "string \<Rightarrow> string \<Rightarrow> bool" where
  "startsWith _ [] = True"
| "startsWith [] (p # ps) = False"
| "startsWith (c # cs) (p # ps) = (c = p \<and> startsWith cs ps)"

fun stringIncludes :: "string \<Rightarrow> string \<Rightarrow> bool" where
  "stringIncludes [] pat = (pat = [])"
| "stringIncludes (c # cs) pat = (startsWith (c # cs) pat \<or> stringIncludes cs pat)"

definition transientPatterns :: "string list" where
  "transientPatterns =
     [''timeout'', ''econnreset'', ''enotfound'', ''econnrefused'', ''etimedout'',
      ''network'', ''temporary'', ''unavailable'']"

text \<open>A number is truthy when it is not 0; an absent field is falsy.\<close>

definition truthyNum :: "rat option \<Rightarrow> bool" where
  "truthyNum x = (case x of None \<Rightarrow> False | Some r \<Rightarrow> r \<noteq> 0)"

definition HttpFailureClassifier ::
  "ErrorWithResponse \<Rightarrow> ResponseMetadata option \<Rightarrow> FailureDomain" where
  "HttpFailureClassifier err response' =
     (let st = (case response' of Some r \<Rightarrow> status r | None \<Rightarrow> None);
          ra = (case response' of Some r \<Rightarrow> retryAfter r | None \<Rightarrow> None)
      in if st = Some 429 then RateLimit
         else if truthyNum ra then RateLimit
         else if (case st of Some c \<Rightarrow> c \<noteq> 0 \<and> c \<ge> 500 | None \<Rightarrow> False) then Transient
         else if (case st of Some c \<Rightarrow> c \<noteq> 0 \<and> c \<ge> 400 \<and> c < 500 | None \<Rightarrow> False)
         then Permanent
         else if list_ex (\<lambda>pattern. stringIncludes (toLowerCase (message err)) pattern) transientPatterns
         then Transient
         else Unknown)"

subsection \<open>Rate-limit tracker (\<^verbatim>\<open>src/rate-limit-tracker.ts\<close>)\<close>

record RateLimitWindow =
  remaining :: int
  resetAt :: int
  limit :: int

record RateLimitState = RateLimitWindow +
  perEndpoint :: "(string \<times> RateLimitWindow) list option"

record RateLimitTracker =
  rl_state :: "RateLimitState option"

definition newRateLimitTracker :: "RateLimitState option \<Rightarrow> RateLimitTracker" where
  "newRateLimitTracker initialState = \<lparr>rl_state = initialState\<rparr>"

definition parseHeader :: "(string \<times> string) list \<Rightarrow> string \<Rightarrow> int option" where
  "parseHeader hs name =
     (case map_of hs (toLowerCase name) of
        None \<Rightarrow> None
      | Some v \<Rightarrow> if v = [] then None else parseInt v)"

definition updateFromHeaders ::
  "(string \<times> string) list \<Rightarrow> string option \<Rightarrow> RateLimitTracker \<Rightarrow> RateLimitTracker" where
  "updateFromHeaders hs endpoint tr =
     (case (parseHeader hs ''x-ratelimit-remaining'', parseHeader hs ''x-ratelimit-limit'',
            parseHeader hs ''x-ratelimit-reset'') of
        (Some remaining', Some limit', Some reset') \<Rightarrow>
          (let resetAt' = reset' * 1000;
               window = \<lparr>remaining = remaining', resetAt = resetAt', limit = limit'\<rparr>
           in case (endpoint, rl_state tr) of
                (Some ep, Some st) \<Rightarrow>
                  (case perEndpoint st of
                     Some pe \<Rightarrow>
                       if ep \<noteq> [] then tr\<lparr>rl_state := Some (st\<lparr>perEndpoint := Some (AList.update ep window pe)\<rparr>)\<rparr>
                       else tr\<lparr>rl_state := Some (RateLimitWindow.extend window \<lparr>perEndpoint = None\<rparr>)\<rparr>
                   | None \<Rightarrow> tr\<lparr>rl_state := Some (RateLimitWindow.extend window \<lparr>perEndpoint = None\<rparr>)\<rparr>)
              | _ \<Rightarrow> tr\<lparr>rl_state := Some (RateLimitWindow.extend window \<lparr>perEndpoint = None\<rparr>)\<rparr>)
      | _ \<Rightarrow> tr)"

definition getTimeUntilReset :: "int \<Rightarrow> RateLimitTracker \<Rightarrow> int option" where
  "getTimeUntilReset now tr =
     (case rl_state tr of None \<Rightarrow> None | Some st \<Rightarrow> Some (max 0 (resetAt st - now)))"

definition isRateLimited :: "int \<Rightarrow> RateLimitTracker \<Rightarrow> bool" where
  "isRateLimited now tr =
     (case rl_state tr of None \<Rightarrow> False | Some st \<Rightarrow> remaining st \<le> 0 \<and> now < resetAt st)"

definition decrement :: "string option \<Rightarrow> RateLimitTracker \<Rightarrow> RateLimitTracker" where
  "decrement endpoint tr =
     (case rl_state tr of
        None \<Rightarrow> tr
      | Some st \<Rightarrow>
          (case (case (endpoint, perEndpoint st) of
                   (Some ep, Some pe) \<Rightarrow> if ep \<noteq> [] then map_option (Pair ep) (map_of pe ep) else None
                 | _ \<Rightarrow> None) of
             Some (ep, endpointState) \<Rightarrow>
               tr\<lparr>rl_state := Some (st\<lparr>perEndpoint :=
                    map_option (AList.update ep
                      (endpointState\<lparr>remaining := max 0 (remaining endpointState - 1)\<rparr>))
                      (perEndpoint st)\<rparr>)\<rparr>
           | None \<Rightarrow> tr\<lparr>rl_state := Some (st\<lparr>remaining := max 0 (remaining st - 1)\<rparr>)\<rparr>))"

subsection \<open>The operation, its environment and the state of a run\<close>

text \<open>
  What the operation throws is an \<^verbatim>\<open>Error\<close> object or some other value, given by
  its \<^verbatim>\<open>String(err)\<close>.
\<close>

datatype thrown = ThrownError ErrorWithResponse | ThrownOther string

datatype 'v outcome = Resolves "'v jsval" | Rejects thrown

text \<open>
  The environment of one call of \<^verbatim>\<open>retry\<close>: \<open>fn k\<close> is the outcome of invocation
  number \<open>k\<close> of the operation (from 0) and the time it takes, \<open>mathRandom k\<close> the
  value of draw \<open>k\<close> of \<^verbatim>\<open>Math.random()\<close>, \<open>signal\<close> the time at which the caller's
  abort signal fires, if ever.
\<close>

record 'v environment =
  fn :: "nat \<Rightarrow> 'v outcome \<times> nat"
  mathRandom :: "nat \<Rightarrow> rat"
  dateParse :: "string \<Rightarrow> int option"
  signal :: "int option"

text \<open>
  The options of \<^verbatim>\<open>retry\<close>. The policy and the classifier are functions of their
  parameters; \<open>circuitBreaker\<close> holds the options from which the breaker is built.
\<close>

record RetryParams =
  maxAttempts :: "jsnum option"
  policy :: "int \<Rightarrow> FailureDomain \<Rightarrow> ErrorWithResponse \<Rightarrow> jsnum option"
  classifier :: "ErrorWithResponse \<Rightarrow> ResponseMetadata option \<Rightarrow> FailureDomain"
  retryTimeout :: "jsnum option"
  circuitBreaker :: "CircuitBreakerParams option"
  rateLimitState :: "RateLimitState option"

datatype EventType = AttemptEvent | SuccessEvent | FailureEvent | CancelledEvent

record 'v RetryEvent =
  ev_type :: EventType
  ev_attempt :: "'v RetryAttempt"
  totalAttempts :: nat
  estimatedRemainingMs :: "int option"
  isLastAttempt :: bool

text \<open>
  The state of a run: the clock, the local variables \<^verbatim>\<open>circuitBreaker\<close>,
  \<^verbatim>\<open>rateLimitTracker\<close> and \<^verbatim>\<open>attempts\<close> of \<^verbatim>\<open>retry\<close>, the events passed to
  \<^verbatim>\<open>onEvent\<close>, and three counters of what has happened: calls of the operation,
  draws of \<^verbatim>\<open>Math.random()\<close>, and passes through the rate-limit wait.
\<close>

record 'v world =
  clock :: int
  invocations :: nat
  randomDraws :: nat
  rateLimitWaits :: nat
  breaker :: "CircuitBreaker option"
  tracker :: "RateLimitTracker option"
  attempts :: "'v RetryAttempt list"
  events :: "'v RetryEvent list"

definition emitEvent :: "'v RetryEvent \<Rightarrow> 'v world \<Rightarrow> 'v world" where
  "emitEvent ev w = w\<lparr>events := events w @ [ev]\<rparr>"

subsection \<open>Signals and sleeping (\<^verbatim>\<open>src/retry/helpers.ts\<close>)\<close>

text \<open>
  A signal is the time at which it aborts. \<^verbatim>\<open>setupTimeout\<close> arms a timer unless the
  timeout is falsy; the timer of the runtime waits at least 1 ms.
\<close>

definition setupTimeout :: "jsnum option \<Rightarrow> int \<Rightarrow> int option" where
  "setupTimeout timeoutMs now =
     (case timeoutMs of
        None \<Rightarrow> None
      | Some NaN \<Rightarrow> None
      | Some (Fin r) \<Rightarrow> if r = 0 then None else Some (now + max 1 \<lfloor>r\<rfloor>)
      | Some _ \<Rightarrow> Some (now + 1))"

definition combineSignals :: "int option \<Rightarrow> int option \<Rightarrow> int option" where
  "combineSignals s1 s2 =
     (case (s1, s2) of
        (None, None) \<Rightarrow> None
      | (Some a, None) \<Rightarrow> Some a
      | (None, Some b) \<Rightarrow> Some b
      | (Some a, Some b) \<Rightarrow> Some (min a b))"

definition isAborted :: "int option \<Rightarrow> int \<Rightarrow> bool" where
  "isAborted sig now = (case sig of None \<Rightarrow> False | Some t \<Rightarrow> t \<le> now)"

text \<open>
  \<^verbatim>\<open>sleep\<close> returns whether it resolved and the time at which it settled: it rejects
  at once when the signal has aborted, at the abort when that comes first.
\<close>

definition sleep :: "int \<Rightarrow> int option \<Rightarrow> int \<Rightarrow> bool \<times> int" where
  "sleep ms sig now =
     (if isAborted sig now then (False, now)
      else (case sig of
              Some t \<Rightarrow> if t \<le> now + ms then (False, t) else (True, now + ms)
            | None \<Rightarrow> (True, now + ms)))"

subsection \<open>Pre-attempt checks (\<^verbatim>\<open>src/retry/pre-checks.ts\<close>)\<close>

record 'v PreCheckResult =
  shouldProceed :: bool
  pc_attemptRecord :: "'v RetryAttempt option"
  pc_delay :: "int option"

definition CircuitState_toString :: "CircuitState \<Rightarrow> string" where
  "CircuitState_toString s =
     (case s of Closed \<Rightarrow> ''closed'' | Open \<Rightarrow> ''open'' | HalfOpen \<Rightarrow> ''half-open'')"

definition intToString :: "int \<Rightarrow> string" where
  "intToString i = (if i < 0 then CHR ''-'' # decimal (nat (- i)) else decimal (nat i))"

text \<open>
  The breaker is the only argument the checks change (\<^verbatim>\<open>canExecute\<close> may half-open
  it); it is returned with the result. An invalid attempt number makes the record
  builders raise.
\<close>

definition performPreChecks ::
  "int \<Rightarrow> bool \<Rightarrow> CircuitBreaker option \<Rightarrow> RateLimitTracker option \<Rightarrow> int
   \<Rightarrow> (jsError + 'v PreCheckResult) \<times> CircuitBreaker option" where
  "performPreChecks attempt' aborted cb tr now =
     (if aborted then
        (case createRetryAttemptFailure attempt' RetryCancelledError Unknown 0 now of
           Inl e \<Rightarrow> (Inl e, cb)
         | Inr rec \<Rightarrow>
             (Inr \<lparr>shouldProceed = False, pc_attemptRecord = Some rec, pc_delay = None\<rparr>, cb))
      else
        (let (refused, cb1) =
               (case cb of
                  None \<Rightarrow> (False, None)
                | Some c \<Rightarrow> (\<not> fst (canExecute now c), Some (snd (canExecute now c))))
         in if refused then
              (case createRetryAttemptFailure attempt'
                      (Error (''Circuit breaker is '' @
                         (case cb1 of Some c \<Rightarrow> CircuitState_toString (state c) | None \<Rightarrow> [])))
                      Transient 0 now of
                 Inl e \<Rightarrow> (Inl e, cb1)
               | Inr rec \<Rightarrow>
                   (Inr \<lparr>shouldProceed = False, pc_attemptRecord = Some rec, pc_delay = None\<rparr>, cb1))
            else if (case tr of Some t \<Rightarrow> isRateLimited now t | None \<Rightarrow> False) then
              (let timeUntilReset =
                     (case tr of
                        Some t \<Rightarrow> (case getTimeUntilReset now t of Some x \<Rightarrow> x | None \<Rightarrow> 0)
                      | None \<Rightarrow> 0)
               in case createRetryAttemptFailure attempt'
                         (Error (''Rate limit active, resets in '' @ intToString timeUntilReset @ ''ms''))
                         RateLimit (of_int timeUntilReset) now of
                    Inl e \<Rightarrow> (Inl e, cb1)
                  | Inr rec \<Rightarrow>
                      (Inr \<lparr>shouldProceed = True, pc_attemptRecord = Some rec,
                            pc_delay = Some timeUntilReset\<rparr>, cb1))
            else (Inr \<lparr>shouldProceed = True, pc_attemptRecord = None, pc_delay = None\<rparr>, cb1)))"

subsection \<open>One attempt (\<^verbatim>\<open>src/retry/attempt-handler.ts\<close>)\<close>

text \<open>\<open>ar_result\<close> and \<open>ar_error\<close> are the optional fields: absent is \<^verbatim>\<open>undefined\<close>.\<close>

record 'v AttemptResult =
  ar_success :: bool
  ar_result :: "'v jsval"
  ar_error :: "ErrorWithResponse option"
  ar_failureDomain :: FailureDomain
  ar_delay :: "int option"
  attemptRecord :: "'v RetryAttempt"

text \<open>\<^verbatim>\<open>err instanceof Error ? err : new Error(String(err))\<close>, the original value kept.\<close>

definition toError :: "thrown \<Rightarrow> ErrorWithResponse" where
  "toError err =
     (case err of
        ThrownError e \<Rightarrow> e
      | ThrownOther s \<Rightarrow>
          \<lparr>message = s, response = None, err_status = None, err_headers = None,
           err_retryAfter = None, originalValue = Some s\<rparr>)"

text \<open>
  The delay of the rate-limit override: Retry-After seconds in milliseconds, plus the
  jitter factor times a draw \<open>r\<close> of \<^verbatim>\<open>Math.random()\<close>, rounded down.
\<close>

definition rateLimitOverrideDelay :: "rat \<Rightarrow> rat \<Rightarrow> int" where
  "rateLimitOverrideDelay retryAfter' r =
     (let d = retryAfter' * 1000 in \<lfloor>d + d * RATE_LIMIT_JITTER_FACTOR * r\<rfloor>)"

text \<open>
  Lines 102 to 118: the delay of the policy, made \<^verbatim>\<open>null\<close> when it is not a finite
  non-negative number, then replaced for a rate limit with a truthy Retry-After, then
  validated and clamped. \<open>r\<close> is the draw of \<^verbatim>\<open>Math.random()\<close> the override uses.
\<close>

definition overrideApplies :: "FailureDomain \<Rightarrow> ResponseMetadata option \<Rightarrow> bool" where
  "overrideApplies failureDomain' responseMetadata =
     (failureDomain' = RateLimit
      \<and> truthyNum (case responseMetadata of Some m \<Rightarrow> retryAfter m | None \<Rightarrow> None))"

definition nextDelay ::
  "RetryParams \<Rightarrow> rat \<Rightarrow> int \<Rightarrow> FailureDomain \<Rightarrow> ErrorWithResponse \<Rightarrow> ResponseMetadata option
   \<Rightarrow> int option" where
  "nextDelay P r attempt' failureDomain' error' responseMetadata =
     (let policyDelay = policy P attempt' failureDomain' error';
          validDelay =
            (case policyDelay of
               None \<Rightarrow> None
             | Some d \<Rightarrow> if \<not> isFinite d \<or> jsLess d 0 then None else Some d);
          overridden =
            (case (case responseMetadata of Some m \<Rightarrow> retryAfter m | None \<Rightarrow> None) of
               Some ra \<Rightarrow>
                 if overrideApplies failureDomain' responseMetadata
                 then Some (Fin (of_int (rateLimitOverrideDelay ra r)))
                 else validDelay
             | None \<Rightarrow> validDelay)
      in validateAndClampDelay overridden)"

text \<open>
  The call of the operation counts one invocation and takes its time. A raise of the
  record builder of the success branch happens inside the \<^verbatim>\<open>try\<close> block: it is caught
  and the builder of the \<^verbatim>\<open>catch\<close> block raises it again for the same attempt number.
\<close>

definition executeAttempt ::
  "RetryParams \<Rightarrow> 'v environment \<Rightarrow> int \<Rightarrow> 'v world \<Rightarrow> (jsError + 'v AttemptResult) \<times> 'v world" where
  "executeAttempt P E attempt' w =
     (let (outcome', duration) = fn E (invocations w);
          w1 = w\<lparr>clock := clock w + int duration, invocations := Suc (invocations w)\<rparr>;
          now = clock w1
      in case outcome' of
           Resolves result' \<Rightarrow>
             (case createRetryAttemptSuccess attempt' result' Unknown 0 now of
                Inl e \<Rightarrow> (Inl e, w1)
              | Inr rec \<Rightarrow>
                  (Inr \<lparr>ar_success = True, ar_result = result', ar_error = None,
                        ar_failureDomain = Unknown, ar_delay = None, attemptRecord = rec\<rparr>,
                   w1\<lparr>breaker := map_option recordSuccess (breaker w1),
                      tracker := map_option (decrement None) (tracker w1)\<rparr>))
         | Rejects err \<Rightarrow>
             (let error' = toError err;
                  responseMetadata = extractResponseMetadata (dateParse E) now error';
                  failureDomain' = classifier P error' responseMetadata
              in if failureDomain' = Permanent then
                   (case createRetryAttemptFailure attempt' (OperationError error') failureDomain' 0 now of
                      Inl e \<Rightarrow> (Inl e, w1)
                    | Inr rec \<Rightarrow>
                        (Inr \<lparr>ar_success = False, ar_result = Undefined, ar_error = Some error',
                              ar_failureDomain = failureDomain', ar_delay = None,
                              attemptRecord = rec\<rparr>,
                         w1\<lparr>breaker := map_option (recordFailure now) (breaker w1)\<rparr>))
                 else
                   (let delay' = nextDelay P (mathRandom E (randomDraws w1)) attempt'
                                   failureDomain' error' responseMetadata;
                        w2 = (if overrideApplies failureDomain' responseMetadata
                              then w1\<lparr>randomDraws := Suc (randomDraws w1)\<rparr> else w1)
                    in case createRetryAttemptFailure attempt' (OperationError error') failureDomain'
                              (of_int (case delay' of Some d \<Rightarrow> d | None \<Rightarrow> 0)) now of
                         Inl e \<Rightarrow> (Inl e, w2)
                       | Inr rec \<Rightarrow>
                           (Inr \<lparr>ar_success = False, ar_result = Undefined, ar_error = Some error',
                                 ar_failureDomain = failureDomain', ar_delay = delay',
                                 attemptRecord = rec\<rparr>,
                            w2\<lparr>breaker := map_option (recordFailure now) (breaker w2),
                               tracker :=
                                 (case (case responseMetadata of Some m \<Rightarrow> headers m | None \<Rightarrow> None) of
                                    Some hs \<Rightarrow>
                                      if failureDomain' = RateLimit
                                      then map_option (updateFromHeaders hs None) (tracker w2)
                                      else tracker w2
                                  | None \<Rightarrow> tracker w2)\<rparr>))))"

subsection \<open>The orchestration loop (\<^verbatim>\<open>src/retry.ts\<close>, \<^verbatim>\<open>src/retry/result-builders.ts\<close>)\<close>

record 'v RetryResult =
  rr_value :: "'v jsval"
  rr_attempts :: "'v RetryAttempt list"
  metrics :: RetryMetrics

definition buildSuccessResult :: "'v jsval \<Rightarrow> 'v RetryAttempt list \<Rightarrow> 'v RetryResult" where
  "buildSuccessResult v as =
     \<lparr>rr_value = v, rr_attempts = as, metrics = computeMetrics as True\<rparr>"

text \<open>
  One pass through the body of the \<^verbatim>\<open>for\<close> loop either leaves \<^verbatim>\<open>retry\<close> (a
  \<^verbatim>\<open>return\<close> or a \<^verbatim>\<open>throw\<close>) or reaches the increment of the loop counter, by
  \<^verbatim>\<open>continue\<close> or by the end of the body.
\<close>

datatype 'v step = Return "jsError + 'v RetryResult" | NextIteration

text \<open>Lines 107 to 227: the attempt, then success, immediate failure, exhaustion or sleep.\<close>

definition attemptAndDecide ::
  "RetryParams \<Rightarrow> 'v environment \<Rightarrow> int \<Rightarrow> int option \<Rightarrow> int \<Rightarrow> 'v world \<Rightarrow> 'v step \<times> 'v world" where
  "attemptAndDecide P E maxAttempts' sig attempt' w =
     (case executeAttempt P E attempt' w of
        (Inl e, w1) \<Rightarrow> (Return (Inl e), w1)
      | (Inr attemptResult, w1) \<Rightarrow>
          (let w2 = w1\<lparr>attempts := attempts w1 @ [attemptRecord attemptResult]\<rparr>
           in if ar_success attemptResult \<and> ar_result attemptResult \<noteq> Undefined then
                (Return (Inr (buildSuccessResult (ar_result attemptResult) (attempts w2))),
                 emitEvent \<lparr>ev_type = SuccessEvent, ev_attempt = attemptRecord attemptResult,
                            totalAttempts = length (attempts w2), estimatedRemainingMs = None,
                            isLastAttempt = True\<rparr> w2)
              else
                (let isLast = (attempt' = maxAttempts');
                     estimated = (if ar_delay attemptResult \<noteq> None \<and> \<not> isLast
                                  then ar_delay attemptResult else None);
                     w3 = emitEvent \<lparr>ev_type = AttemptEvent, ev_attempt = attemptRecord attemptResult,
                                     totalAttempts = length (attempts w2),
                                     estimatedRemainingMs = estimated, isLastAttempt = isLast\<rparr> w2;
                     failed = emitEvent \<lparr>ev_type = FailureEvent,
                                         ev_attempt = attemptRecord attemptResult,
                                         totalAttempts = length (attempts w2),
                                         estimatedRemainingMs = None, isLastAttempt = True\<rparr> w3;
                     failNow = (Return (Inl (case ar_error attemptResult of
                                               Some e \<Rightarrow> OperationError e
                                             | None \<Rightarrow> Error ''Unknown error'')), failed)
                 in case ar_delay attemptResult of
                      None \<Rightarrow> failNow
                    | Some d \<Rightarrow>
                        if ar_failureDomain attemptResult = Permanent then failNow
                        else if isLast then
                          (Return (Inl (RetryExhaustedError maxAttempts'
                                          (map_option OperationError (ar_error attemptResult))
                                          (Some (ar_failureDomain attemptResult)))), failed)
                        else
                          (let (resolved, t) = sleep d sig (clock w3);
                               w4 = w3\<lparr>clock := t\<rparr>
                           in if resolved then (NextIteration, w4)
                              else (case createRetryAttemptFailure attempt' RetryCancelledError
                                           Unknown 0 t of
                                      Inl e \<Rightarrow> (Return (Inl e), w4)
                                    | Inr cancelledAttempt \<Rightarrow>
                                        (let w5 = w4\<lparr>attempts := attempts w4 @ [cancelledAttempt]\<rparr>
                                         in (Return (Inl RetryCancelledError),
                                             emitEvent \<lparr>ev_type = CancelledEvent,
                                                        ev_attempt = cancelledAttempt,
                                                        totalAttempts = length (attempts w5),
                                                        estimatedRemainingMs = None,
                                                        isLastAttempt = (attempt' = maxAttempts')\<rparr>
                                                       w5)))))))"

text \<open>
  Lines 59 to 105, then the rest of the body. The sleep of the rate-limit wait is not
  inside a \<^verbatim>\<open>try\<close>: its rejection leaves \<^verbatim>\<open>retry\<close>.
\<close>

definition retryIteration ::
  "RetryParams \<Rightarrow> 'v environment \<Rightarrow> int \<Rightarrow> int option \<Rightarrow> int \<Rightarrow> 'v world \<Rightarrow> 'v step \<times> 'v world" where
  "retryIteration P E maxAttempts' sig attempt' w =
     (case performPreChecks attempt' (isAborted sig (clock w)) (breaker w) (tracker w) (clock w) of
        (Inl e, cb1) \<Rightarrow> (Return (Inl e), w\<lparr>breaker := cb1\<rparr>)
      | (Inr preCheck, cb1) \<Rightarrow>
          (let w1 = w\<lparr>breaker := cb1\<rparr>
           in case pc_attemptRecord preCheck of
                None \<Rightarrow> attemptAndDecide P E maxAttempts' sig attempt' w1
              | Some rec \<Rightarrow>
                  if \<not> shouldProceed preCheck then
                    (let w2 = w1\<lparr>attempts := attempts w1 @ [rec]\<rparr>
                     in (Return (Inl (case error rec of Some e \<Rightarrow> e | None \<Rightarrow> RetryCancelledError)),
                         emitEvent \<lparr>ev_type = (if error rec \<noteq> None then FailureEvent
                                                else CancelledEvent),
                                    ev_attempt = rec, totalAttempts = length (attempts w2),
                                    estimatedRemainingMs = None,
                                    isLastAttempt = (attempt' = maxAttempts')\<rparr> w2))
                  else
                    (case pc_delay preCheck of
                       None \<Rightarrow> attemptAndDecide P E maxAttempts' sig attempt' w1
                     | Some d \<Rightarrow>
                         if d \<noteq> 0 \<and> d > 0 then
                           (let w2 = w1\<lparr>attempts := attempts w1 @ [rec],
                                       rateLimitWaits := Suc (rateLimitWaits w1)\<rparr>;
                                w3 = emitEvent \<lparr>ev_type = AttemptEvent, ev_attempt = rec,
                                                totalAttempts = length (attempts w2),
                                                estimatedRemainingMs = Some d,
                                                isLastAttempt = (attempt' = maxAttempts')\<rparr> w2;
                                (resolved, t) = sleep d sig (clock w3)
                            in if resolved then (NextIteration, w3\<lparr>clock := t\<rparr>)
                               else (Return (Inl RetryCancelledError), w3\<lparr>clock := t\<rparr>))
                         else attemptAndDecide P E maxAttempts' sig attempt' w1)))"

function retryLoop ::
  "RetryParams \<Rightarrow> 'v environment \<Rightarrow> int \<Rightarrow> int option \<Rightarrow> int \<Rightarrow> 'v world
   \<Rightarrow> (jsError + 'v RetryResult) \<times> 'v world" where
  "retryLoop P E maxAttempts' sig attempt' w =
     (if attempt' \<le> maxAttempts' then
        (case retryIteration P E maxAttempts' sig attempt' w of
           (Return r, w') \<Rightarrow> (r, w')
         | (NextIteration, w') \<Rightarrow> retryLoop P E maxAttempts' sig (attempt' + 1) w')
      else (Inl (RetryExhaustedError maxAttempts' None None), w))"
  by pat_completeness auto
termination
  by (relation "measure (\<lambda>(P, E, m, sig, i, w). nat (m + 1 - i))") auto

text \<open>The state before the loop: the breaker and the tracker are built from the options.\<close>

definition initialWorld :: "RetryParams \<Rightarrow> int \<Rightarrow> 'v world" where
  "initialWorld P start =
     \<lparr>clock = start, invocations = 0, randomDraws = 0, rateLimitWaits = 0,
      breaker = (case circuitBreaker P of
                   Some circuitBreakerOptions \<Rightarrow> Some (newCircuitBreaker circuitBreakerOptions)
                 | None \<Rightarrow> None),
      tracker = (case rateLimitState P of
                   Some st \<Rightarrow> Some (newRateLimitTracker (Some st))
                 | None \<Rightarrow> None),
      attempts = [], events = []\<rparr>"

text \<open>The state in which validation fails: nothing has been built or called.\<close>

definition emptyWorld :: "int \<Rightarrow> 'v world" where
  "emptyWorld start =
     \<lparr>clock = start, invocations = 0, randomDraws = 0, rateLimitWaits = 0,
      breaker = None, tracker = None, attempts = [], events = []\<rparr>"

text \<open>
  \<^verbatim>\<open>maxAttempts = DEFAULT_MAX_ATTEMPTS\<close> in the destructuring of the parameters; the
  bound of the loop, an integer once validation has passed; and the signal combined from
  the caller's signal and the timeout armed when \<^verbatim>\<open>retry\<close> is called.
\<close>

definition maxAttemptsOrDefault :: "RetryParams \<Rightarrow> jsnum" where
  "maxAttemptsOrDefault P =
     (case maxAttempts P of None \<Rightarrow> DEFAULT_MAX_ATTEMPTS | Some m \<Rightarrow> m)"

definition attemptLimit :: "RetryParams \<Rightarrow> int" where
  "attemptLimit P = (case maxAttemptsOrDefault P of Fin r \<Rightarrow> \<lfloor>r\<rfloor> | _ \<Rightarrow> 0)"

definition combinedSignal :: "RetryParams \<Rightarrow> 'v environment \<Rightarrow> int \<Rightarrow> int option" where
  "combinedSignal P E start = combineSignals (signal E) (setupTimeout (retryTimeout P) start)"

text \<open>
  Timers and listeners are not part of the state, so \<^verbatim>\<open>cleanup\<close> has nothing to do
  here. The event hook, the policy and the classifier are taken not to throw.
\<close>

definition retry ::
  "RetryParams \<Rightarrow> 'v environment \<Rightarrow> int \<Rightarrow> (jsError + 'v RetryResult) \<times> 'v world" where
  "retry P E start =
     (case validateRetryOptions (Some (maxAttemptsOrDefault P)) (retryTimeout P) of
        Inl e \<Rightarrow> (Inl e, emptyWorld start)
      | Inr _ \<Rightarrow>
          retryLoop P E (attemptLimit P) (combinedSignal P E start) 1 (initialWorld P start))"

text \<open>
  \<open>reaches P E start a w\<close>: the run \<open>retry P E start\<close> comes to the head of its loop
  with the counter \<open>a\<close> in the state \<open>w\<close>.
\<close>

inductive reaches :: "RetryParams \<Rightarrow> 'v environment \<Rightarrow> int \<Rightarrow> int \<Rightarrow> 'v world \<Rightarrow> bool"
  for P :: RetryParams and E :: "'v environment" and start :: int where
  first_pass:
    "validateRetryOptions (Some (maxAttemptsOrDefault P)) (retryTimeout P) = Inr u
     \<Longrightarrow> reaches P E start 1 (initialWorld P start)"
| next_pass:
    "reaches P E start a w \<Longrightarrow> a \<le> attemptLimit P
     \<Longrightarrow> retryIteration P E (attemptLimit P) (combinedSignal P E start) a w = (NextIteration, w')
     \<Longrightarrow> reaches P E start (a + 1) w'"

subsection \<open>Reference definition of the jitter\<close>

text \<open>
  The delay as the specification words it: Retry-After seconds in milliseconds with
  symmetric jitter of 10 percent either way, for a draw \<open>r\<close> between 0 and 1.
\<close>

definition spec_symmetricJitterDelay :: "rat \<Rightarrow> rat \<Rightarrow> int" where
  "spec_symmetricJitterDelay retryAfter' r =
     (let d = retryAfter' * 1000 in \<lfloor>d + d * (1 / 10) * (r * 2 - 1)\<rfloor>)"

subsection \<open>Example inputs\<close>

text \<open>
  A 429 error carrying \<^verbatim>\<open>Retry-After: 10\<close>, options with the HTTP classifier and a
  constant policy, an environment whose operation always fails with that error and whose
  random draws are 0, a history of three attempts, and a date parser that knows one date.
\<close>

definition error429 :: ErrorWithResponse where
  "error429 =
     \<lparr>message = ''Too Many Requests'',
      response = Some \<lparr>status = Some 429, headers = Some [(''Retry-After'', ''10'')],
                       retryAfter = None\<rparr>,
      err_status = None, err_headers = None, err_retryAfter = None, originalValue = None\<rparr>"

definition exampleParams :: RetryParams where
  "exampleParams =
     \<lparr>maxAttempts = Some (Fin 3), policy = (\<lambda>a d e. Some (Fin 100)),
      classifier = HttpFailureClassifier, retryTimeout = None, circuitBreaker = None,
      rateLimitState = None\<rparr>"

definition rateLimitedEnv :: "nat environment" where
  "rateLimitedEnv =
     \<lparr>fn = (\<lambda>k. (Rejects (ThrownError error429), 5)), mathRandom = (\<lambda>k. 0),
      dateParse = (\<lambda>s. None), signal = None\<rparr>"

definition exampleHistory :: "nat RetryAttempt list" where
  "exampleHistory =
     [\<lparr>attempt = 1, result = None, error = Some (Error ''timeout''), failureDomain = Transient,
       delay = 100, timestamp = 10\<rparr>,
      \<lparr>attempt = 2, result = None, error = Some (Error ''timeout''), failureDomain = Transient,
       delay = 200, timestamp = 120\<rparr>,
      \<lparr>attempt = 3, result = Some (Value 7), error = None, failureDomain = Unknown,
       delay = 0, timestamp = 330\<rparr>]"


subsection \<open>Reading the end of a run\<close>

text \<open>
  The error a run throws, if any; and whether that error is the cancellation error or
  the refusal of the circuit breaker at the pre-attempt check.
\<close>

definition thrownError :: "jsError + 'r \<Rightarrow> jsError option" where
  "thrownError res = (case res of Inl e \<Rightarrow> Some e | Inr _ \<Rightarrow> None)"

definition endsByCancelOrRefusal :: "jsError + 'r \<Rightarrow> bool" where
  "endsByCancelOrRefusal res =
     (res = Inl RetryCancelledError
      \<or> (\<exists>st. res = Inl (Error (''Circuit breaker is '' @ CircuitState_toString st))))"

subsection \<open>More example inputs\<close>

text \<open>
  Options with an exhausted rate-limit window that resets at time 1000, environments
  whose operation always succeeds, always resolves with \<^verbatim>\<open>undefined\<close>, always fails
  with a given error, or fails once with the 429 error and then succeeds, a 400 and a 503
  error, and options whose policy always declines.
\<close>

definition rateLimitedParams :: RetryParams where
  "rateLimitedParams =
     exampleParams\<lparr>maxAttempts := Some (Fin 2),
                   rateLimitState := Some \<lparr>remaining = 0, resetAt = 1000, limit = 10,
                                            perEndpoint = None\<rparr>\<rparr>"

definition succeedingEnv :: "nat environment" where
  "succeedingEnv =
     \<lparr>fn = (\<lambda>k. (Resolves (Value 7), 5)), mathRandom = (\<lambda>k. 0), dateParse = (\<lambda>s. None),
      signal = None\<rparr>"

definition undefinedEnv :: "nat environment" where
  "undefinedEnv =
     \<lparr>fn = (\<lambda>k. (Resolves Undefined, 5)), mathRandom = (\<lambda>k. 0), dateParse = (\<lambda>s. None),
      signal = None\<rparr>"

definition error400 :: ErrorWithResponse where
  "error400 =
     \<lparr>message = ''Bad Request'',
      response = Some \<lparr>status = Some 400, headers = None, retryAfter = None\<rparr>,
      err_status = None, err_headers = None, err_retryAfter = None, originalValue = None\<rparr>"

definition error503 :: ErrorWithResponse where
  "error503 =
     \<lparr>message = ''Service Unavailable'',
      response = Some \<lparr>status = Some 503, headers = None, retryAfter = None\<rparr>,
      err_status = None, err_headers = None, err_retryAfter = None, originalValue = None\<rparr>"

definition failingEnv :: "ErrorWithResponse \<Rightarrow> nat environment" where
  "failingEnv e =
     \<lparr>fn = (\<lambda>k. (Rejects (ThrownError e), 5)), mathRandom = (\<lambda>k. 0), dateParse = (\<lambda>s. None),
      signal = None\<rparr>"

definition decliningParams :: RetryParams where
  "decliningParams = exampleParams\<lparr>policy := (\<lambda>a d e. None)\<rparr>"

definition rateLimitedOnceEnv :: "nat environment" where
  "rateLimitedOnceEnv =
     \<lparr>fn = (\<lambda>k. if k = 0 then (Rejects (ThrownError error429), 5) else (Resolves (Value 7), 5)),
      mathRandom = (\<lambda>k. 0), dateParse = (\<lambda>s. None), signal = None\<rparr>"

declare decimal.simps [simp del]
declare retryLoop.simps [simp del]

section \<open>Properties of the circuit breaker\<close>

lemma recordFailure_closed_opens:
  "state cb = Closed \<Longrightarrow> failureCount cb + 1 \<ge> failureThreshold (params cb)
   \<Longrightarrow> state (recordFailure now cb) = Open"
  by (simp add: recordFailure_def transitionTo_def Let_def)

lemma canExecute_open_after_timeout:
  "state cb = Open \<Longrightarrow> lastFailureTime cb = Some t \<Longrightarrow> t \<noteq> 0
   \<Longrightarrow> now - t \<ge> timeout (params cb)
   \<Longrightarrow> fst (canExecute now cb) \<and> state (snd (canExecute now cb)) = HalfOpen"
  by (simp add: canExecute_def timeoutPassed_def transitionTo_def)

lemma recordFailure_halfOpen_opens:
  "state cb = HalfOpen \<Longrightarrow>
   state (recordFailure now cb) = Open \<and> successCount (recordFailure now cb) = 0"
  by (simp add: recordFailure_def transitionTo_def Let_def)

lemma recordSuccess_halfOpen_closes:
  "state cb = HalfOpen \<Longrightarrow> successCount cb + 1 \<ge> successThreshold (params cb)
   \<Longrightarrow> state (recordSuccess cb) = Closed \<and> successCount (recordSuccess cb) = 0
       \<and> failureCount (recordSuccess cb) = failureCount cb"
  by (simp add: recordSuccess_def transitionTo_def Let_def)

text \<open>
  C2. The claim: closing from half-open resets both counters. At threshold 2, two
  failures open the breaker, the admission check after the timeout half-opens it and one
  success closes it; the success counter is 0 but the failure counter is still 2, so a
  single further failure opens the breaker again.
\<close>

theorem C2_halfOpen_close_keeps_failureCount:
  "(let p = \<lparr>failureThreshold = 2, successThreshold = 1, timeout = 1000\<rparr>;
        cb1 = recordFailure 5000 (recordFailure 4000 (newCircuitBreaker p));
        cb2 = snd (canExecute 6000 cb1);
        cb3 = recordSuccess cb2
    in state cb1 = Open \<and> state cb2 = HalfOpen \<and> state cb3 = Closed
       \<and> successCount cb3 = 0 \<and> failureCount cb3 = 2
       \<and> state (recordFailure 7000 cb3) = Open)"
  by (simp add: Let_def newCircuitBreaker_def recordFailure_def canExecute_def
      timeoutPassed_def recordSuccess_def transitionTo_def)

section \<open>The rate-limit override of the delay\<close>

lemma rateLimitOverrideDelay_not_below:
  "0 \<le> ra \<Longrightarrow> 0 \<le> r \<Longrightarrow> \<lfloor>ra * 1000\<rfloor> \<le> rateLimitOverrideDelay ra r"
  by (simp add: rateLimitOverrideDelay_def RATE_LIMIT_JITTER_FACTOR_def Let_def floor_mono)


text \<open>
  C5. The claim: the Retry-After value in milliseconds gets symmetric jitter of 10 percent.
  For a 429 error with \<^verbatim>\<open>Retry-After: 10\<close> and the draw 0 of the random generator the
  attempt is classified as a rate limit and its delay is 10000 ms, where symmetric jitter
  gives 9000 ms: the code only ever adds to the Retry-After value.
\<close>

theorem C5_rate_limit_jitter_is_one_sided:
  "(case fst (executeAttempt exampleParams rateLimitedEnv 1 (initialWorld exampleParams 0)) of
      Inr r \<Rightarrow> ar_failureDomain r = RateLimit \<and> ar_delay r = Some 10000
    | Inl e \<Rightarrow> False)
   \<and> rateLimitOverrideDelay 10 0 = 10000
   \<and> spec_symmetricJitterDelay 10 0 = 9000"
  by code_simp

theorem C5_witness:
  "fst (executeAttempt exampleParams rateLimitedEnv 1 (initialWorld exampleParams 0))
     \<noteq> Inl RetryCancelledError
   \<and> rateLimitOverrideDelay 10 0 \<noteq> spec_symmetricJitterDelay 10 0"
  using C5_rate_limit_jitter_is_one_sided by (auto split: sum.splits)


section \<open>Metrics\<close>

lemma foldl_plus_sum_list: "foldl (\<lambda>sum d. sum + d) a ds = a + sum_list (ds :: rat list)"
  by (induction ds arbitrary: a) simp_all

lemma positiveDelays_filter:
  "[delay a. a \<leftarrow> xs, 0 < delay a] = filter (\<lambda>d. d > 0) (map delay xs)"
  by (induction xs) simp_all

lemma distribution_foldl:
  "foldl (\<lambda>dist a. if error a \<noteq> None then dist(failureDomain a := dist (failureDomain a) + 1) else dist)
         init hist d
   = init d + length (filter (\<lambda>a. error a \<noteq> None \<and> failureDomain a = d) hist)"
  by (induction hist arbitrary: init) simp_all

text \<open>
  C7. \<open>computeMetrics\<close> agrees with the reference definition field by field: the
  retry rate, the success rate, the mean of the positive delays before the last attempt,
  the count of failed attempts of each domain, and \<open>n - 1\<close> retries for \<open>n \<ge> 1\<close>.
\<close>

theorem C7_computeMetrics_reference:
  "retryRate (computeMetrics hist flag) = spec_retryRate (length hist)
   \<and> successRate (computeMetrics hist flag) = (if flag then 1 else 0)
   \<and> averageDelay (computeMetrics hist flag) = spec_averageDelay hist
   \<and> (\<forall>d. failureDomainDistribution (computeMetrics hist flag) d = spec_distribution hist d)
   \<and> (length hist \<ge> 1 \<longrightarrow> totalRetries (computeMetrics hist flag) = int (length hist) - 1)"
proof (intro conjI)
  show "retryRate (computeMetrics hist flag) = spec_retryRate (length hist)"
    by (simp add: computeMetrics_def spec_retryRate_def Let_def of_nat_diff)
  show "successRate (computeMetrics hist flag) = (if flag then 1 else 0)"
    by (simp add: computeMetrics_def Let_def)
  show "averageDelay (computeMetrics hist flag) = spec_averageDelay hist"
    by (simp add: computeMetrics_def spec_averageDelay_def positiveDelaysBeforeLast_def Let_def
        positiveDelays_filter foldl_plus_sum_list butlast_conv_take)
  show "\<forall>d. failureDomainDistribution (computeMetrics hist flag) d = spec_distribution hist d"
    by (simp del: not_None_eq add: computeMetrics_def spec_distribution_def Let_def distribution_foldl)
  show "length hist \<ge> 1 \<longrightarrow> totalRetries (computeMetrics hist flag) = int (length hist) - 1"
    by (simp add: computeMetrics_def Let_def max_def)
qed

theorem C7_witness:
  "1 \<le> length exampleHistory
   \<and> totalRetries (computeMetrics exampleHistory True) = 2
   \<and> retryRate (computeMetrics exampleHistory True) = 2 / 3
   \<and> averageDelay (computeMetrics exampleHistory True) = 150
   \<and> failureDomainDistribution (computeMetrics exampleHistory True) Transient = 2
   \<and> failureDomainDistribution (computeMetrics exampleHistory True) Permanent = 0"
  using C7_computeMetrics_reference [of exampleHistory True]
  by (simp add: exampleHistory_def spec_retryRate_def spec_averageDelay_def
      positiveDelaysBeforeLast_def spec_distribution_def)


section \<open>Retry-After parsing\<close>













section \<open>Validation of the options\<close>

text \<open>
  C9. When \<open>maxAttempts\<close> is not an integer or is less than 1, or the timeout is not
  finite or is at most 0, \<open>retry\<close> fails with a configuration error, the operation has
  not been invoked and no attempt has been recorded.
\<close>

theorem C9_invalid_options_fail_before_any_attempt:
  assumes "(\<exists>m. maxAttempts P = Some m \<and> ((\<forall>i::int. m \<noteq> Fin (of_int i)) \<or> (\<exists>r. m = Fin r \<and> r < 1)))
         \<or> (\<exists>t. retryTimeout P = Some t \<and> ((\<forall>r. t \<noteq> Fin r) \<or> (\<exists>r. t = Fin r \<and> r \<le> 0)))"
  shows "(\<exists>msg x. fst (retry P E start) = Inl (RetryConfigurationError msg x))
         \<and> invocations (snd (retry P E start)) = 0
         \<and> attempts (snd (retry P E start)) = []"
proof -
  have "\<exists>msg x. validateRetryOptions
          (Some (maxAttemptsOrDefault P))
          (retryTimeout P) = Inl (RetryConfigurationError msg x)"
  proof -
    consider (m) m where "maxAttempts P = Some m"
        "(\<forall>i::int. m \<noteq> Fin (of_int i)) \<or> (\<exists>r. m = Fin r \<and> r < 1)"
      | (t) t where "retryTimeout P = Some t"
        "(\<forall>r. t \<noteq> Fin r) \<or> (\<exists>r. t = Fin r \<and> r \<le> 0)"
      using assms by blast
    then show ?thesis
    proof cases
      case m
      have "\<not> isInteger m \<or> jsLess m 1"
        using m(2) by (cases m) (auto simp: isInteger_def jsLess_def)
      then show ?thesis
        by (auto simp: m(1) validateRetryOptions_def maxAttemptsOrDefault_def)
    next
      case t
      have "\<not> isFinite t \<or> jsLessEq t 0"
        using t(2) by (cases t) (auto simp: isFinite_def jsLessEq_def)
      then show ?thesis
        by (auto simp: t(1) validateRetryOptions_def maxAttemptsOrDefault_def split: sum.splits)
    qed
  qed
  then obtain msg x where
    "validateRetryOptions (Some (maxAttemptsOrDefault P))
       (retryTimeout P) = Inl (RetryConfigurationError msg x)" by blast
  then show ?thesis
    by (simp add: retry_def emptyWorld_def)
qed

theorem C9_witness:
  "(\<exists>msg x. fst (retry (exampleParams\<lparr>maxAttempts := Some (Fin (1 / 2))\<rparr>) rateLimitedEnv 0)
              = Inl (RetryConfigurationError msg x))
   \<and> invocations (snd (retry (exampleParams\<lparr>maxAttempts := Some (Fin (1 / 2))\<rparr>) rateLimitedEnv 0)) = 0
   \<and> attempts (snd (retry (exampleParams\<lparr>maxAttempts := Some (Fin (1 / 2))\<rparr>) rateLimitedEnv 0)) = []"
proof (rule C9_invalid_options_fail_before_any_attempt)
  have "(1 / 2 :: rat) < 1" by simp
  then have "\<exists>r. Fin (1 / 2) = Fin r \<and> r < 1" by blast
  then show "(\<exists>m. maxAttempts (exampleParams\<lparr>maxAttempts := Some (Fin (1 / 2))\<rparr>) = Some m
                \<and> ((\<forall>i::int. m \<noteq> Fin (of_int i)) \<or> (\<exists>r. m = Fin r \<and> r < 1)))
           \<or> (\<exists>t. retryTimeout (exampleParams\<lparr>maxAttempts := Some (Fin (1 / 2))\<rparr>) = Some t
                \<and> ((\<forall>r. t \<noteq> Fin r) \<or> (\<exists>r. t = Fin r \<and> r \<le> 0)))"
    by simp
qed


section \<open>The circuit breaker of a run\<close>

lemma retry_starts_from_initialWorld:
  "validateRetryOptions (Some (maxAttemptsOrDefault P)) (retryTimeout P) = Inr u
   \<Longrightarrow> retry P E start =
       retryLoop P E (attemptLimit P) (combinedSignal P E start) 1 (initialWorld P start)"
  by (simp add: retry_def)

lemma reaches_retry:
  "reaches P E start a w \<Longrightarrow>
     1 \<le> a \<and> retry P E start = retryLoop P E (attemptLimit P) (combinedSignal P E start) a w"
proof (induction rule: reaches.induct)
  case (first_pass u)
  then show ?case by (simp add: retry_starts_from_initialWorld)
next
  case (next_pass a w w')
  then show ?case
    by (simp add: retryLoop.simps[of P E "attemptLimit P" "combinedSignal P E start" a w])
qed






section \<open>The orchestration loop\<close>

subsection \<open>One attempt and one pass through the loop\<close>

lemma createRetryAttemptFailure_ok:
  "1 \<le> a \<Longrightarrow> createRetryAttemptFailure a e d dl now =
     Inr \<lparr>attempt = a, result = None, error = Some e, failureDomain = d, delay = dl, timestamp = now\<rparr>"
  by (simp add: createRetryAttemptFailure_def validateAttemptNumber_def)

lemma createRetryAttemptSuccess_ok:
  "1 \<le> a \<Longrightarrow> createRetryAttemptSuccess a v d dl now =
     Inr \<lparr>attempt = a, result = Some v, error = None, failureDomain = d, delay = dl, timestamp = now\<rparr>"
  by (simp add: createRetryAttemptSuccess_def validateAttemptNumber_def)

lemma executeAttempt_Resolves:
  assumes "1 \<le> a" "fn E (invocations w) = (Resolves v, dur)"
  shows "executeAttempt P E a w =
    (Inr \<lparr>ar_success = True, ar_result = v, ar_error = None, ar_failureDomain = Unknown,
          ar_delay = None,
          attemptRecord = \<lparr>attempt = a, result = Some v, error = None, failureDomain = Unknown,
                           delay = 0, timestamp = clock w + int dur\<rparr>\<rparr>,
     w\<lparr>clock := clock w + int dur, invocations := Suc (invocations w),
       breaker := map_option recordSuccess (breaker w),
       tracker := map_option (decrement None) (tracker w)\<rparr>)"
  using assms by (simp add: executeAttempt_def createRetryAttemptSuccess_ok Let_def)

lemma executeAttempt_Permanent:
  assumes "1 \<le> a" "fn E (invocations w) = (Rejects thr, dur)"
    and "classifier P (toError thr)
           (extractResponseMetadata (dateParse E) (clock w + int dur) (toError thr)) = Permanent"
  shows "executeAttempt P E a w =
    (Inr \<lparr>ar_success = False, ar_result = Undefined, ar_error = Some (toError thr),
          ar_failureDomain = Permanent, ar_delay = None,
          attemptRecord = \<lparr>attempt = a, result = None, error = Some (OperationError (toError thr)),
                           failureDomain = Permanent, delay = 0, timestamp = clock w + int dur\<rparr>\<rparr>,
     w\<lparr>clock := clock w + int dur, invocations := Suc (invocations w),
       breaker := map_option (recordFailure (clock w + int dur)) (breaker w)\<rparr>)"
  using assms by (simp add: executeAttempt_def createRetryAttemptFailure_ok Let_def)

lemma executeAttempt_retryable:
  assumes "1 \<le> a" "fn E (invocations w) = (Rejects thr, dur)"
    and "classifier P (toError thr)
           (extractResponseMetadata (dateParse E) (clock w + int dur) (toError thr)) = d"
    and "d \<noteq> Permanent"
  shows "\<exists>w'. executeAttempt P E a w =
    (Inr \<lparr>ar_success = False, ar_result = Undefined, ar_error = Some (toError thr),
          ar_failureDomain = d,
          ar_delay = nextDelay P (mathRandom E (randomDraws w)) a d (toError thr)
                       (extractResponseMetadata (dateParse E) (clock w + int dur) (toError thr)),
          attemptRecord = \<lparr>attempt = a, result = None, error = Some (OperationError (toError thr)),
                           failureDomain = d,
                           delay = of_int (case nextDelay P (mathRandom E (randomDraws w)) a d (toError thr)
                              (extractResponseMetadata (dateParse E) (clock w + int dur) (toError thr))
                              of Some x \<Rightarrow> x | None \<Rightarrow> 0),
                           timestamp = clock w + int dur\<rparr>\<rparr>, w')
     \<and> invocations w' = Suc (invocations w) \<and> rateLimitWaits w' = rateLimitWaits w
     \<and> attempts w' = attempts w \<and> events w' = events w \<and> clock w' = clock w + int dur
     \<and> (tracker w = None \<longrightarrow> tracker w' = None)"
  using assms by (simp add: executeAttempt_def createRetryAttemptFailure_ok Let_def split: option.splits)

lemma executeAttempt_summary:
  assumes "1 \<le> a"
  shows "\<exists>r w'. executeAttempt P E a w = (Inr r, w')
     \<and> invocations w' = Suc (invocations w) \<and> rateLimitWaits w' = rateLimitWaits w
     \<and> attempts w' = attempts w \<and> (tracker w = None \<longrightarrow> tracker w' = None)"
proof (cases "fn E (invocations w)")
  case (Pair out dur)
  show ?thesis
  proof (cases out)
    case (Resolves v)
    with Pair assms show ?thesis by (simp add: executeAttempt_Resolves)
  next
    case (Rejects thr)
    show ?thesis
    proof (cases "classifier P (toError thr)
           (extractResponseMetadata (dateParse E) (clock w + int dur) (toError thr)) = Permanent")
      case True
      with Pair Rejects assms show ?thesis by (simp add: executeAttempt_Permanent)
    next
      case False
      with Pair Rejects assms executeAttempt_retryable[of a E w thr dur P] show ?thesis
        by auto
    qed
  qed
qed

lemma attemptAndDecide_frame:
  assumes "1 \<le> a" "attemptAndDecide P E m sig a w = (s, w')"
  shows "invocations w' = Suc (invocations w) \<and> rateLimitWaits w' = rateLimitWaits w
     \<and> (tracker w = None \<longrightarrow> tracker w' = None)
     \<and> (length (attempts w') = Suc (length (attempts w))
         \<or> (length (attempts w') = Suc (Suc (length (attempts w))) \<and> s = Return (Inl RetryCancelledError)))
     \<and> (\<forall>r. s = Return (Inr r) \<longrightarrow> rr_attempts r = attempts w' \<and> rr_value r \<noteq> Undefined)"
proof -
  obtain r w1 where ex: "executeAttempt P E a w = (Inr r, w1)"
    and fr: "invocations w1 = Suc (invocations w)" "rateLimitWaits w1 = rateLimitWaits w"
      "attempts w1 = attempts w" "tracker w = None \<longrightarrow> tracker w1 = None"
    using executeAttempt_summary[OF assms(1), of P E w] by (elim exE conjE) (rule that)
  show ?thesis
    using assms(2) fr
    by (auto simp: attemptAndDecide_def ex Let_def emitEvent_def buildSuccessResult_def
        createRetryAttemptFailure_ok[OF assms(1)]
        split: option.splits prod.splits if_splits)
qed

lemma attemptAndDecide_undefined:
  assumes "1 \<le> a" "fst (fn E (invocations w)) = Resolves Undefined"
  shows "fst (attemptAndDecide P E m sig a w) = Return (Inl (Error ''Unknown error''))"
proof -
  obtain dur where "fn E (invocations w) = (Resolves Undefined, dur)"
    using assms(2) by (cases "fn E (invocations w)") auto
  then show ?thesis
    using assms(1)
    by (simp add: attemptAndDecide_def executeAttempt_Resolves Let_def)
qed

lemma performPreChecks_shape:
  assumes "1 \<le> a" "performPreChecks a ab cb tr now = (r, cb1)"
  shows "\<exists>pre. r = Inr pre
     \<and> (pc_attemptRecord pre = None
         \<or> (\<exists>rec. pc_attemptRecord pre = Some rec
              \<and> ((\<not> shouldProceed pre
                   \<and> (error rec = Some RetryCancelledError
                        \<or> (\<exists>st. error rec = Some (Error (''Circuit breaker is '' @ CircuitState_toString st)))))
                  \<or> (shouldProceed pre \<and> (\<exists>d. pc_delay pre = Some d \<and> 0 < d \<and> tr \<noteq> None)))))"
  using assms(2)
  by (auto simp: performPreChecks_def createRetryAttemptFailure_ok[OF assms(1)] Let_def
      isRateLimited_def getTimeUntilReset_def
      split: if_splits prod.splits option.splits)

lemma retryIteration_cases:
  assumes "1 \<le> a" "retryIteration P E m sig a (w :: 'v world) = (s, w')"
  shows "(invocations w' = invocations w \<and> rateLimitWaits w' = rateLimitWaits w
          \<and> length (attempts w') = Suc (length (attempts w)) \<and> tracker w' = tracker w
          \<and> (s = Return (Inl RetryCancelledError)
               \<or> (\<exists>st. s = Return (Inl (Error (''Circuit breaker is '' @ CircuitState_toString st))))))
       \<or> (invocations w' = invocations w \<and> rateLimitWaits w' = Suc (rateLimitWaits w)
          \<and> length (attempts w') = Suc (length (attempts w)) \<and> tracker w' = tracker w
          \<and> tracker w \<noteq> None \<and> (s = NextIteration \<or> s = Return (Inl RetryCancelledError)))
       \<or> (\<exists>cb1. attemptAndDecide P E m sig a (w\<lparr>breaker := cb1\<rparr>) = (s, w'))"
proof -
  obtain r :: "jsError + 'v PreCheckResult" and cb1 where pc:
    "performPreChecks a (isAborted sig (clock w)) (breaker w) (tracker w) (clock w) = (r, cb1)"
    by (cases "performPreChecks a (isAborted sig (clock w)) (breaker w) (tracker w) (clock w)
                 :: (jsError + 'v PreCheckResult) \<times> CircuitBreaker option")
  from performPreChecks_shape[OF assms(1) pc] obtain pre where pre: "r = Inr pre"
    and shape: "pc_attemptRecord pre = None
         \<or> (\<exists>rec. pc_attemptRecord pre = Some rec
              \<and> ((\<not> shouldProceed pre
                   \<and> (error rec = Some RetryCancelledError
                        \<or> (\<exists>st. error rec = Some (Error (''Circuit breaker is '' @ CircuitState_toString st)))))
                  \<or> (shouldProceed pre \<and> (\<exists>d. pc_delay pre = Some d \<and> 0 < d \<and> tracker w \<noteq> None))))"
    by blast
  show ?thesis
    using assms(2) shape
    by (auto simp: retryIteration_def pc pre Let_def emitEvent_def
        split: option.splits prod.splits if_splits)
qed

lemma retryIteration_history:
  assumes "1 \<le> a" "retryIteration P E m sig a (w :: 'v world) = (s, w')"
  shows "invocations w \<le> invocations w' \<and> invocations w' \<le> Suc (invocations w)
     \<and> (length (attempts w') + invocations w + rateLimitWaits w
            = length (attempts w) + invocations w' + rateLimitWaits w'
          \<or> ((\<exists>res. s = Return res \<and> endsByCancelOrRefusal res)
              \<and> length (attempts w') + invocations w + rateLimitWaits w
                 = Suc (length (attempts w) + invocations w' + rateLimitWaits w')))
     \<and> (\<forall>r. s = Return (Inr r) \<longrightarrow> rr_attempts r = attempts w' \<and> rr_value r \<noteq> Undefined)
     \<and> (tracker w = None \<longrightarrow> rateLimitWaits w' = rateLimitWaits w \<and> tracker w' = None)"
  using retryIteration_cases[OF assms]
proof (elim disjE exE)
  fix cb1 assume ad: "attemptAndDecide P E m sig a (w\<lparr>breaker := cb1\<rparr>) = (s, w')"
  from attemptAndDecide_frame[OF assms(1) ad] show ?thesis
    by (auto simp: endsByCancelOrRefusal_def)
qed (auto simp: endsByCancelOrRefusal_def)

lemma retryLoop_history:
  "1 \<le> a \<Longrightarrow> retryLoop P E m sig a (w :: 'v world) = (res, w') \<Longrightarrow>
     invocations w \<le> invocations w'
     \<and> (length (attempts w') + invocations w + rateLimitWaits w
            = length (attempts w) + invocations w' + rateLimitWaits w'
          \<or> (endsByCancelOrRefusal res
              \<and> length (attempts w') + invocations w + rateLimitWaits w
                 = Suc (length (attempts w) + invocations w' + rateLimitWaits w')))
     \<and> (\<forall>r. res = Inr r \<longrightarrow> rr_attempts r = attempts w' \<and> rr_value r \<noteq> Undefined)
     \<and> (tracker w = None \<longrightarrow> rateLimitWaits w' = rateLimitWaits w)"
proof (induction P E m sig a w arbitrary: res w' rule: retryLoop.induct)
  case (1 P E m sig a w)
  show ?case
  proof (cases "a \<le> m")
    case False
    with "1.prems" show ?thesis by (auto simp: retryLoop.simps[of P E m sig a w])
  next
    case True
    obtain s w1 where it: "retryIteration P E m sig a w = (s, w1)"
      by (cases "retryIteration P E m sig a w")
    note h = retryIteration_history[OF "1.prems"(1) it]
    show ?thesis
    proof (cases s)
      case (Return r)
      with True it "1.prems"(2) have "res = r" "w' = w1"
        by (simp_all add: retryLoop.simps[of P E m sig a w])
      with h Return show ?thesis by auto
    next
      case NextIteration
      with True it "1.prems"(2) have loop: "retryLoop P E m sig (a + 1) w1 = (res, w')"
        by (simp add: retryLoop.simps[of P E m sig a w])
      have a1: "1 \<le> a + 1" using "1.prems"(1) by simp
      note ih = "1.IH"[OF True it[symmetric] NextIteration a1 loop]
      from h ih NextIteration show ?thesis by auto
    qed
  qed
qed


subsection \<open>The attempt history\<close>

text \<open>
  C1, as stated, fails. With an exhausted rate-limit window and \<open>maxAttempts = 2\<close> the
  run waits once, invokes the operation once and returns a history of two records; with
  \<open>maxAttempts = 1\<close> the wait uses up the only attempt, the operation is never invoked
  and the run ends with the exhaustion error.
\<close>

theorem C1_rate_limit_wait_is_recorded_and_consumes_an_attempt:
  "map_sum id (\<lambda>r. length (rr_attempts r)) (fst (retry rateLimitedParams succeedingEnv 0)) = Inr 2
   \<and> length (attempts (snd (retry rateLimitedParams succeedingEnv 0))) = 2
   \<and> invocations (snd (retry rateLimitedParams succeedingEnv 0)) = 1
   \<and> thrownError (fst (retry (rateLimitedParams\<lparr>maxAttempts := Some (Fin 1)\<rparr>) succeedingEnv 0))
       = Some (RetryExhaustedError 1 None None)
   \<and> invocations (snd (retry (rateLimitedParams\<lparr>maxAttempts := Some (Fin 1)\<rparr>) succeedingEnv 0)) = 0"
  by code_simp


text \<open>
  C1, amended. The history holds one record for each invocation and one for each
  rate-limit wait, and one more only when the run ends with the cancellation error or
  with the refusal of the circuit breaker. A run that returns a result returns exactly
  this history, of length invocations plus waits. Without a rate-limit state there is
  no wait.
\<close>

theorem C1_history_counts_invocations_and_waits:
  "(length (attempts (snd (retry P (E :: 'a environment) start)))
      = invocations (snd (retry P E start)) + rateLimitWaits (snd (retry P E start))
    \<or> (endsByCancelOrRefusal (fst (retry P E start))
        \<and> length (attempts (snd (retry P E start)))
           = Suc (invocations (snd (retry P E start)) + rateLimitWaits (snd (retry P E start)))))
   \<and> (\<forall>r. fst (retry P E start) = Inr r \<longrightarrow>
         rr_attempts r = attempts (snd (retry P E start))
         \<and> length (rr_attempts r)
            = invocations (snd (retry P E start)) + rateLimitWaits (snd (retry P E start)))
   \<and> (rateLimitState P = None \<longrightarrow> rateLimitWaits (snd (retry P E start)) = 0)"
proof (cases "validateRetryOptions
          (Some (maxAttemptsOrDefault P)) (retryTimeout P)")
  case (Inl e)
  then show ?thesis by (simp add: retry_def emptyWorld_def)
next
  case (Inr u)
  define m where "m = attemptLimit P"
  define sig where "sig = combinedSignal P E start"
  have r: "retry P E start = retryLoop P E m sig 1 (initialWorld P start)"
    using Inr by (simp add: retry_def m_def sig_def)
  obtain res w' where loop: "retryLoop P E m sig 1 (initialWorld P start) = (res, w')"
    by (cases "retryLoop P E m sig 1 (initialWorld P start)")
  have one: "(1::int) \<le> 1" by simp
  have iw: "invocations (initialWorld P start :: 'a world) = 0"
    "rateLimitWaits (initialWorld P start :: 'a world) = 0"
    "attempts (initialWorld P start :: 'a world) = []"
    "rateLimitState P = None \<longrightarrow> tracker (initialWorld P start :: 'a world) = None"
    by (simp_all add: initialWorld_def)
  from retryLoop_history[OF one loop] iw(4) show ?thesis
    by (auto simp: r loop iw(1-3) endsByCancelOrRefusal_def)
qed

theorem C1_witness:
  "rateLimitState exampleParams = None
   \<and> \<not> isl (fst (retry exampleParams succeedingEnv 0))
   \<and> rateLimitWaits (snd (retry exampleParams succeedingEnv 0)) = 0
   \<and> length (attempts (snd (retry exampleParams succeedingEnv 0)))
      = invocations (snd (retry exampleParams succeedingEnv 0))"
proof -
  have a: "rateLimitState exampleParams = None" by (simp add: exampleParams_def)
  have b: "\<not> isl (fst (retry exampleParams succeedingEnv 0))" by code_simp
  from C1_history_counts_invocations_and_waits [of exampleParams succeedingEnv 0] a b
  show ?thesis by (auto simp: endsByCancelOrRefusal_def)
qed


subsection \<open>An operation that resolves with undefined\<close>

lemma retryIteration_undefined:
  assumes "1 \<le> a" "retryIteration P E m sig a (w :: 'v world) = (s, w')"
    and "fst (fn E (invocations w)) = Resolves Undefined"
  shows "invocations w' = invocations w
       \<or> (s = Return (Inl (Error ''Unknown error'')) \<and> invocations w' = Suc (invocations w))"
  using retryIteration_cases[OF assms(1,2)]
proof (elim disjE exE)
  fix cb1 assume ad: "attemptAndDecide P E m sig a (w\<lparr>breaker := cb1\<rparr>) = (s, w')"
  have "fst (attemptAndDecide P E m sig a (w\<lparr>breaker := cb1\<rparr>)) = Return (Inl (Error ''Unknown error''))"
    using assms(1,3) by (intro attemptAndDecide_undefined) simp_all
  with ad attemptAndDecide_frame[OF assms(1) ad] show ?thesis by simp
qed simp_all

lemma retryLoop_undefined:
  "1 \<le> a \<Longrightarrow> retryLoop P E m sig a (w :: 'v world) = (res, w') \<Longrightarrow> invocations w \<le> k
   \<Longrightarrow> k < invocations w' \<Longrightarrow> fst (fn E k) = Resolves Undefined
   \<Longrightarrow> res = Inl (Error ''Unknown error'') \<and> invocations w' = Suc k"
proof (induction P E m sig a w arbitrary: res w' rule: retryLoop.induct)
  case (1 P E m sig a w)
  show ?case
  proof (cases "a \<le> m")
    case False
    with "1.prems" show ?thesis by (auto simp: retryLoop.simps[of P E m sig a w])
  next
    case True
    obtain s w1 where it: "retryIteration P E m sig a w = (s, w1)"
      by (cases "retryIteration P E m sig a w")
    note h = retryIteration_history[OF "1.prems"(1) it]
    show ?thesis
    proof (cases s)
      case (Return r)
      with True it "1.prems"(2) have eq: "res = r" "w' = w1"
        by (simp_all add: retryLoop.simps[of P E m sig a w])
      with h "1.prems"(3,4) have k: "k = invocations w" by simp
      from retryIteration_undefined[OF "1.prems"(1) it] "1.prems"(4,5) k eq Return
      show ?thesis by auto
    next
      case NextIteration
      with True it "1.prems"(2) have loop: "retryLoop P E m sig (a + 1) w1 = (res, w')"
        by (simp add: retryLoop.simps[of P E m sig a w])
      have a1: "1 \<le> a + 1" using "1.prems"(1) by simp
      have "invocations w1 \<le> k"
      proof (cases "k = invocations w")
        case True
        with retryIteration_undefined[OF "1.prems"(1) it] "1.prems"(5) NextIteration
        show ?thesis by simp
      next
        case False
        with h "1.prems"(3) show ?thesis by simp
      qed
      from "1.IH"[OF True it[symmetric] NextIteration a1 loop this "1.prems"(4,5)]
      show ?thesis .
    qed
  qed
qed


text \<open>
  C3. No run returns a result whose value is \<^verbatim>\<open>undefined\<close>; and when invocation
  number \<open>k\<close> of a run resolves with \<^verbatim>\<open>undefined\<close>, the run throws the generic
  error \<^verbatim>\<open>Unknown error\<close> and that invocation is the last one.
\<close>

theorem C3_undefined_result_is_reported_as_failure:
  "(\<forall>r. fst (retry P (E :: 'a environment) start) = Inr r \<longrightarrow> rr_value r \<noteq> Undefined)
   \<and> (k < invocations (snd (retry P E start)) \<longrightarrow> fst (fn E k) = Resolves Undefined \<longrightarrow>
        fst (retry P E start) = Inl (Error ''Unknown error'')
        \<and> invocations (snd (retry P E start)) = Suc k)"
proof (cases "validateRetryOptions
          (Some (maxAttemptsOrDefault P)) (retryTimeout P)")
  case (Inl e)
  then show ?thesis by (simp add: retry_def emptyWorld_def)
next
  case (Inr u)
  define m where "m = attemptLimit P"
  define sig where "sig = combinedSignal P E start"
  have r: "retry P E start = retryLoop P E m sig 1 (initialWorld P start)"
    using Inr by (simp add: retry_def m_def sig_def)
  obtain res w' where loop: "retryLoop P E m sig 1 (initialWorld P start) = (res, w')"
    by (cases "retryLoop P E m sig 1 (initialWorld P start)")
  have one: "(1::int) \<le> 1" by simp
  have iw: "invocations (initialWorld P start :: 'a world) \<le> k"
    by (simp add: initialWorld_def)
  from retryLoop_history[OF one loop] retryLoop_undefined[OF one loop iw]
  show ?thesis
    by (auto simp: r loop)
qed

theorem C3_witness:
  "0 < invocations (snd (retry exampleParams undefinedEnv 0))
   \<and> fst (fn undefinedEnv 0) = Resolves Undefined
   \<and> fst (retry exampleParams undefinedEnv 0) = Inl (Error ''Unknown error'')
   \<and> invocations (snd (retry exampleParams undefinedEnv 0)) = 1
   \<and> \<not> isl (fst (retry exampleParams succeedingEnv 0))
   \<and> map_sum id rr_value (fst (retry exampleParams succeedingEnv 0)) \<noteq> Inr Undefined"
proof -
  have a: "0 < invocations (snd (retry exampleParams undefinedEnv 0))" by code_simp
  have b: "fst (fn undefinedEnv 0) = Resolves Undefined" by (simp add: undefinedEnv_def)
  have c: "\<not> isl (fst (retry exampleParams succeedingEnv 0))" by code_simp
  from C3_undefined_result_is_reported_as_failure [of exampleParams undefinedEnv 0 0] a b
  have d: "fst (retry exampleParams undefinedEnv 0) = Inl (Error ''Unknown error'')
           \<and> invocations (snd (retry exampleParams undefinedEnv 0)) = 1" by simp
  from C3_undefined_result_is_reported_as_failure [of exampleParams succeedingEnv 0 0] c
  have e: "map_sum id rr_value (fst (retry exampleParams succeedingEnv 0)) \<noteq> Inr Undefined"
    by (cases "fst (retry exampleParams succeedingEnv 0)") auto
  from a b c d e show ?thesis by simp
qed


subsection \<open>Failures that are not retried\<close>

lemma retryIteration_admitted:
  assumes "performPreChecks a (isAborted sig (clock w)) (breaker w) (tracker w) (clock w)
             = (Inr (pre :: 'v PreCheckResult), cb1)" "pc_attemptRecord pre = None"
  shows "retryIteration P E m sig a (w :: 'v world) = attemptAndDecide P E m sig a (w\<lparr>breaker := cb1\<rparr>)"
  using assms by (simp add: retryIteration_def)

lemma retryLoop_Return:
  assumes "a \<le> m" "retryIteration P E m sig a w = (Return r, w')"
  shows "retryLoop P E m sig a w = (r, w')"
  using assms by (simp add: retryLoop.simps[of P E m sig a w])

lemma attemptAndDecide_Permanent:
  assumes "1 \<le> a" "fn E (invocations w) = (Rejects thr, dur)"
    and "classifier P (toError thr)
           (extractResponseMetadata (dateParse E) (clock w + int dur) (toError thr)) = Permanent"
  shows "fst (attemptAndDecide P E m sig a w) = Return (Inl (OperationError (toError thr)))"
  using assms by (simp add: attemptAndDecide_def executeAttempt_Permanent Let_def)

lemma nextDelay_declined:
  assumes "policy P a d e = None \<or> policy P a d e = Some NaN \<or> policy P a d e = Some PosInf
           \<or> policy P a d e = Some NegInf \<or> (\<exists>x. policy P a d e = Some (Fin x) \<and> x < 0)"
    and "\<not> overrideApplies d meta"
  shows "nextDelay P r a d e meta = None"
  using assms
  by (auto simp: nextDelay_def Let_def validateAndClampDelay_def isFinite_def jsLess_def
      split: option.splits)

lemma attemptAndDecide_declined:
  assumes "1 \<le> a" "fn E (invocations w) = (Rejects thr, dur)"
    and "classifier P (toError thr)
           (extractResponseMetadata (dateParse E) (clock w + int dur) (toError thr)) = d"
    and "d \<noteq> Permanent"
    and "nextDelay P (mathRandom E (randomDraws w)) a d (toError thr)
           (extractResponseMetadata (dateParse E) (clock w + int dur) (toError thr)) = None"
  shows "fst (attemptAndDecide P E m sig a w) = Return (Inl (OperationError (toError thr)))"
proof -
  from executeAttempt_retryable[OF assms(1-4)] obtain w1 where
    "executeAttempt P E a w =
      (Inr \<lparr>ar_success = False, ar_result = Undefined, ar_error = Some (toError thr),
            ar_failureDomain = d, ar_delay = None,
            attemptRecord = \<lparr>attempt = a, result = None, error = Some (OperationError (toError thr)),
                             failureDomain = d, delay = 0, timestamp = clock w + int dur\<rparr>\<rparr>, w1)"
    by (auto simp: assms(5))
  then show ?thesis
    by (simp add: attemptAndDecide_def Let_def)
qed

lemma exampleParams_valid:
  "validateRetryOptions (Some (maxAttemptsOrDefault (exampleParams\<lparr>maxAttempts := Some (Fin 5)\<rparr>)))
     (retryTimeout (exampleParams\<lparr>maxAttempts := Some (Fin 5)\<rparr>)) = Inr ()"
  "validateRetryOptions (Some (maxAttemptsOrDefault decliningParams)) (retryTimeout decliningParams)
     = Inr ()"
  by (simp_all add: exampleParams_def decliningParams_def maxAttemptsOrDefault_def
      validateRetryOptions_def isInteger_def jsLess_def)


text \<open>
  C4. Whenever a run comes to a pass of its loop (attempt \<open>a\<close>, state \<open>w\<close>) in which
  the pre-attempt checks admit the attempt, the operation throws and the classifier
  answers \<open>Permanent\<close>, the run throws the error of the operation, which is the thrown
  object itself when that is an \<^verbatim>\<open>Error\<close>, and this invocation is the last one of the
  run, whatever the limit of attempts is.
\<close>

theorem C4_permanent_failure_is_not_retried:
  assumes "reaches P E start a (w :: 'v world)" "a \<le> attemptLimit P"
    and "performPreChecks a (isAborted (combinedSignal P E start) (clock w)) (breaker w) (tracker w)
           (clock w) = (Inr (pre :: 'v PreCheckResult), cb1)"
    and "pc_attemptRecord pre = None"
    and "fn E (invocations w) = (Rejects thr, dur)"
    and "classifier P (toError thr)
           (extractResponseMetadata (dateParse E) (clock w + int dur) (toError thr)) = Permanent"
  shows "fst (retry P E start) = Inl (OperationError (toError thr))
       \<and> invocations (snd (retry P E start)) = Suc (invocations w)
       \<and> (\<forall>e. thr = ThrownError e \<longrightarrow> fst (retry P E start) = Inl (OperationError e))
       \<and> (\<forall>n e dom. fst (retry P E start) \<noteq> Inl (RetryExhaustedError n e dom))"
proof -
  define m where "m = attemptLimit P"
  define sig where "sig = combinedSignal P E start"
  from reaches_retry[OF assms(1)] have a1: "1 \<le> a"
    and r: "retry P E start = retryLoop P E m sig a w" by (simp_all add: m_def sig_def)
  obtain s w' where ad: "attemptAndDecide P E m sig a (w\<lparr>breaker := cb1\<rparr>) = (s, w')"
    by (cases "attemptAndDecide P E m sig a (w\<lparr>breaker := cb1\<rparr>)")
  have "fst (attemptAndDecide P E m sig a (w\<lparr>breaker := cb1\<rparr>))
          = Return (Inl (OperationError (toError thr)))"
    using a1 assms(5,6) by (intro attemptAndDecide_Permanent) simp_all
  with ad have s: "s = Return (Inl (OperationError (toError thr)))" by simp
  have "retryLoop P E m sig a w = (Inl (OperationError (toError thr)), w')"
    using retryIteration_admitted[OF assms(3,4)[folded sig_def], of P E m] ad s assms(2)
    by (intro retryLoop_Return) (simp_all add: m_def)
  with attemptAndDecide_frame[OF a1 ad] show ?thesis
    by (simp add: r toError_def)
qed

theorem C4_witness:
  "fst (retry (exampleParams\<lparr>maxAttempts := Some (Fin 5)\<rparr>) (failingEnv error400) 0)
     = Inl (OperationError error400)
   \<and> invocations (snd (retry (exampleParams\<lparr>maxAttempts := Some (Fin 5)\<rparr>) (failingEnv error400) 0)) = 1"
proof -
  define P where "P = exampleParams\<lparr>maxAttempts := Some (Fin 5)\<rparr>"
  define E where "E = failingEnv error400"
  define w0 :: "nat world" where "w0 = initialWorld P 0"
  have h1: "reaches P E 0 1 w0"
    unfolding w0_def P_def by (rule reaches.first_pass) (rule exampleParams_valid(1))
  have h2: "1 \<le> attemptLimit P"
    by (simp add: P_def exampleParams_def attemptLimit_def maxAttemptsOrDefault_def)
  have h3: "performPreChecks 1 (isAborted (combinedSignal P E 0) (clock w0)) (breaker w0) (tracker w0)
              (clock w0)
              = (Inr (\<lparr>shouldProceed = True, pc_attemptRecord = None, pc_delay = None\<rparr>
                       :: nat PreCheckResult), None)"
    by (simp add: performPreChecks_def w0_def P_def E_def initialWorld_def exampleParams_def
        isAborted_def combinedSignal_def combineSignals_def setupTimeout_def failingEnv_def)
  have h4: "pc_attemptRecord (\<lparr>shouldProceed = True, pc_attemptRecord = None, pc_delay = None\<rparr>
                                :: nat PreCheckResult) = None" by simp
  have h5: "fn E (invocations w0) = (Rejects (ThrownError error400), 5)"
    by (simp add: E_def failingEnv_def)
  have h6: "classifier P (toError (ThrownError error400))
              (extractResponseMetadata (dateParse E) (clock w0 + int 5)
                 (toError (ThrownError error400))) = Permanent"
    by (simp add: P_def exampleParams_def toError_def error400_def extractResponseMetadata_def
        isErrorWithResponse_def retryAfterOf_def HttpFailureClassifier_def truthyNum_def Let_def)
  from C4_permanent_failure_is_not_retried [OF h1 h2 h3 h4 h5 h6]
  show ?thesis
    by (simp add: w0_def P_def E_def initialWorld_def toError_def)
qed


text \<open>
  C6, as stated, fails. The policy declines every delay, the first failure is a rate
  limit carrying \<^verbatim>\<open>Retry-After: 10\<close>, and the engine retries all the same: the
  override replaces the declined delay, the second invocation runs and succeeds.
\<close>

theorem C6_rate_limit_override_retries_after_declined_delay:
  "policy decliningParams 1 RateLimit error429 = None
   \<and> map_sum id rr_value (fst (retry decliningParams rateLimitedOnceEnv 0)) = Inr (Value 7)
   \<and> invocations (snd (retry decliningParams rateLimitedOnceEnv 0)) = 2"
  by code_simp



text \<open>
  C6, amended. Whenever a run comes to a pass of its loop in which the attempt is
  admitted, the operation throws, the domain is not \<open>Permanent\<close>, the policy returns
  \<^verbatim>\<open>null\<close> or a number that is not finite and non-negative, and the rate-limit
  override does not apply (the domain is not \<open>RateLimit\<close>, or there is no truthy
  Retry-After), the run throws the error of the operation and this invocation is its
  last one.
\<close>

theorem C6_declined_delay_is_not_retried:
  assumes "reaches P E start a (w :: 'v world)" "a \<le> attemptLimit P"
    and "performPreChecks a (isAborted (combinedSignal P E start) (clock w)) (breaker w) (tracker w)
           (clock w) = (Inr (pre :: 'v PreCheckResult), cb1)"
    and "pc_attemptRecord pre = None"
    and "fn E (invocations w) = (Rejects thr, dur)"
    and "classifier P (toError thr)
           (extractResponseMetadata (dateParse E) (clock w + int dur) (toError thr)) = d"
    and "d \<noteq> Permanent"
    and "policy P a d (toError thr) = None \<or> policy P a d (toError thr) = Some NaN
         \<or> policy P a d (toError thr) = Some PosInf \<or> policy P a d (toError thr) = Some NegInf
         \<or> (\<exists>x. policy P a d (toError thr) = Some (Fin x) \<and> x < 0)"
    and "\<not> overrideApplies d
             (extractResponseMetadata (dateParse E) (clock w + int dur) (toError thr))"
  shows "fst (retry P E start) = Inl (OperationError (toError thr))
       \<and> invocations (snd (retry P E start)) = Suc (invocations w)"
proof -
  define m where "m = attemptLimit P"
  define sig where "sig = combinedSignal P E start"
  from reaches_retry[OF assms(1)] have a1: "1 \<le> a"
    and r: "retry P E start = retryLoop P E m sig a w" by (simp_all add: m_def sig_def)
  obtain s w' where ad: "attemptAndDecide P E m sig a (w\<lparr>breaker := cb1\<rparr>) = (s, w')"
    by (cases "attemptAndDecide P E m sig a (w\<lparr>breaker := cb1\<rparr>)")
  have "fst (attemptAndDecide P E m sig a (w\<lparr>breaker := cb1\<rparr>))
          = Return (Inl (OperationError (toError thr)))"
    using a1 assms(5,6,7) nextDelay_declined[OF assms(8,9)]
    by (intro attemptAndDecide_declined[where d = d]) simp_all
  with ad have s: "s = Return (Inl (OperationError (toError thr)))" by simp
  have "retryLoop P E m sig a w = (Inl (OperationError (toError thr)), w')"
    using retryIteration_admitted[OF assms(3,4)[folded sig_def], of P E m] ad s assms(2)
    by (intro retryLoop_Return) (simp_all add: m_def)
  with attemptAndDecide_frame[OF a1 ad] show ?thesis
    by (simp add: r)
qed

theorem C6_witness:
  "fst (retry decliningParams (failingEnv error503) 0) = Inl (OperationError error503)
   \<and> invocations (snd (retry decliningParams (failingEnv error503) 0)) = 1"
proof -
  define E where "E = failingEnv error503"
  define w0 :: "nat world" where "w0 = initialWorld decliningParams 0"
  have h1: "reaches decliningParams E 0 1 w0"
    unfolding w0_def by (rule reaches.first_pass) (rule exampleParams_valid(2))
  have h2: "1 \<le> attemptLimit decliningParams"
    by (simp add: decliningParams_def exampleParams_def attemptLimit_def maxAttemptsOrDefault_def
        DEFAULT_MAX_ATTEMPTS_def)
  have h3: "performPreChecks 1 (isAborted (combinedSignal decliningParams E 0) (clock w0))
              (breaker w0) (tracker w0) (clock w0)
              = (Inr (\<lparr>shouldProceed = True, pc_attemptRecord = None, pc_delay = None\<rparr>
                       :: nat PreCheckResult), None)"
    by (simp add: performPreChecks_def w0_def decliningParams_def E_def initialWorld_def
        exampleParams_def isAborted_def combinedSignal_def combineSignals_def setupTimeout_def
        failingEnv_def)
  have h4: "pc_attemptRecord (\<lparr>shouldProceed = True, pc_attemptRecord = None, pc_delay = None\<rparr>
                                :: nat PreCheckResult) = None" by simp
  have h5: "fn E (invocations w0) = (Rejects (ThrownError error503), 5)"
    by (simp add: E_def failingEnv_def)
  have meta: "\<And>dp now. extractResponseMetadata dp now (toError (ThrownError error503))
              = Some \<lparr>status = Some 503, headers = None, retryAfter = None\<rparr>"
    by (simp add: toError_def error503_def extractResponseMetadata_def
        isErrorWithResponse_def retryAfterOf_def Let_def)
  have h6: "classifier decliningParams (toError (ThrownError error503))
              (extractResponseMetadata (dateParse E) (clock w0 + int 5)
                 (toError (ThrownError error503))) = Transient"
    by (simp add: meta decliningParams_def exampleParams_def HttpFailureClassifier_def
        truthyNum_def Let_def)
  have h7: "Transient \<noteq> Permanent" by simp
  have h8: "policy decliningParams 1 Transient (toError (ThrownError error503)) = None
         \<or> policy decliningParams 1 Transient (toError (ThrownError error503)) = Some NaN
         \<or> policy decliningParams 1 Transient (toError (ThrownError error503)) = Some PosInf
         \<or> policy decliningParams 1 Transient (toError (ThrownError error503)) = Some NegInf
         \<or> (\<exists>x. policy decliningParams 1 Transient (toError (ThrownError error503)) = Some (Fin x)
                \<and> x < 0)"
    by (simp add: decliningParams_def exampleParams_def)
  have h9: "\<not> overrideApplies Transient
             (extractResponseMetadata (dateParse E) (clock w0 + int 5)
                 (toError (ThrownError error503)))"
    by (simp add: overrideApplies_def)
  from C6_declined_delay_is_not_retried [OF h1 h2 h3 h4 h5 h6 h7 h8 h9]
  show ?thesis
    by (simp add: w0_def E_def initialWorld_def toError_def)
qed

end
